theory Spec2Isabelle
  imports Complex_Main "HOL-Library.Word" "HOL-Library.Monad_Syntax"
begin

section \<open>The telemetry backend (NVML) as the code sees it\<close>

text \<open>
  Every NVML call of \<^verbatim>\<open>src/metrics.cc\<close> returns an \<^verbatim>\<open>nvmlReturn_t\<close> and, on
  \<^verbatim>\<open>NVML_SUCCESS\<close>, fills an out-parameter. A call is modelled by its outcome: the value
  on success, the error code otherwise (the out-parameter is never read after a failure
  without being overwritten first).
\<close>

datatype 'a nvmlReturn_t = NVML_SUCCESS 'a | NVML_ERROR nat

type_synonym nvmlDevice_t = nat

record nvmlUtilization_t =
  util_gpu :: "32 word"
  util_memory :: "32 word"

text \<open>
  One record of this type is what the backend answers during one stretch of the
  program: initialisation, or one sampling cycle. Device counts and indices are
  \<^verbatim>\<open>unsigned int\<close>; they are only compared and incremented below the count, so they
  are natural numbers here. Power readings are \<^verbatim>\<open>unsigned int\<close> (32 bit), the energy
  reading is \<^verbatim>\<open>unsigned long long\<close> (64 bit).
\<close>

record nvml =
  nvmlInit :: "unit nvmlReturn_t"
  nvmlDeviceGetCount :: "nat nvmlReturn_t"
  nvmlDeviceGetHandleByIndex :: "nat \<Rightarrow> nvmlDevice_t nvmlReturn_t"
  nvmlDeviceGetName :: "nvmlDevice_t \<Rightarrow> string nvmlReturn_t"
  nvmlDeviceGetUUID :: "nvmlDevice_t \<Rightarrow> string nvmlReturn_t"
  nvmlDeviceGetPowerManagementLimit :: "nvmlDevice_t \<Rightarrow> 32 word nvmlReturn_t"
  nvmlDeviceGetPowerUsage :: "nvmlDevice_t \<Rightarrow> 32 word nvmlReturn_t"
  nvmlDeviceGetTotalEnergyConsumption :: "nvmlDevice_t \<Rightarrow> 64 word nvmlReturn_t"
  nvmlDeviceGetUtilizationRates :: "nvmlDevice_t \<Rightarrow> nvmlUtilization_t nvmlReturn_t"

section \<open>Logging\<close>

datatype severity = LOG_INFO | LOG_WARNING | LOG_ERROR

type_synonym log_entry = "severity \<times> string"

text \<open>Decimal rendering of an unsigned number, as \<^verbatim>\<open>operator<<\<close> prints it.\<close>

fun string_of_nat :: "nat \<Rightarrow> string" where
  "string_of_nat n =
     (if n < 10 then [''0123456789'' ! n]
      else string_of_nat (n div 10) @ [''0123456789'' ! (n mod 10)])"

declare string_of_nat.simps [simp del]

section \<open>The metric registry\<close>

datatype metric_kind = Counter | Gauge | Histogram

record MetricFamily =
  family_name :: string
  family_help :: string
  family_kind :: metric_kind

text \<open>
  A metric instance is a label set with a numeric value. The registry's values are
  \<^verbatim>\<open>double\<close>; they are real numbers here, so \<^verbatim>\<open>(double)x * 0.001\<close> is the exact
  product and the rounding of binary floating point is left out.
\<close>

record metric =
  labels :: "(string \<times> string) list"
  val :: real

text \<open>
  \<^verbatim>\<open>Family::Add(labels)\<close> hands out an instance for the label set, starting at 0. The
  code keeps the returned pointers in one vector per family, in the order of the calls;
  a vector slot is identified with the instance it points to, so every call has an
  instance of its own (what the registry does when a label set is repeated is not in
  \<^verbatim>\<open>src/metrics.cc\<close>). \<^verbatim>\<open>Set\<close> overwrites the value and \<^verbatim>\<open>Increment\<close> adds to it; the
  code only ever increments by the difference of two unsigned numbers, which is not
  negative.
\<close>

definition Family_Add :: "(string \<times> string) list \<Rightarrow> metric" where
  "Family_Add gpu_labels = \<lparr>labels = gpu_labels, val = 0\<rparr>"

definition Gauge_Set :: "metric \<Rightarrow> real \<Rightarrow> metric" where
  "Gauge_Set g v = g\<lparr>val := v\<rparr>"

definition Counter_Increment :: "metric \<Rightarrow> real \<Rightarrow> metric" where
  "Counter_Increment c v = c\<lparr>val := val c + v\<rparr>"

text \<open>
  Modelled from the spec: the label key \<^verbatim>\<open>kMetricsLabelGpuUuid\<close> is declared in
  \<^verbatim>\<open>src/core/constants.h\<close>, which is not among the sources; the spec writes the label
  set of a device as \<^verbatim>\<open>{gpu_uuid: "GPU-xxxx"}\<close>.
\<close>

definition kMetricsLabelGpuUuid :: string where
  "kMetricsLabelGpuUuid = ''gpu_uuid''"

datatype Exposer = Exposer (bind_address: string) (collectables: nat)

text \<open>
  The singleton. Its members are those of the class, named without the trailing
  underscore; \<open>logged\<close> collects what the logging macros print.
\<close>

record Metrics =
  registry :: "MetricFamily list"
  gpu_utilization :: "metric list"
  gpu_power_usage :: "metric list"
  gpu_power_limit :: "metric list"
  gpu_energy_consumption :: "metric list"
  nvml_thread :: "nat option"
  nvml_thread_exit :: bool
  exposer :: "Exposer option"
  logged :: "log_entry list"

definition LOG :: "severity \<Rightarrow> string \<Rightarrow> Metrics \<Rightarrow> Metrics" where
  "LOG s msg m = m\<lparr>logged := logged m @ [(s, msg)]\<rparr>"

text \<open>
  The constructor \<^verbatim>\<open>Metrics::Metrics()\<close> registers the twelve families and leaves
  everything else empty. \<open>nvml_thread\<close> is \<open>Some dcnt\<close> once the
  sampling thread has been created (the thread captures \<^verbatim>\<open>dcnt\<close>).
\<close>

definition Metrics_ctor :: Metrics where
  "Metrics_ctor =
     \<lparr>registry =
        [\<lparr>family_name = ''nv_inference_request_success'',
          family_help = ''Number of successful inference requests, all batch sizes'',
          family_kind = Counter\<rparr>,
         \<lparr>family_name = ''nv_inference_request_failure'',
          family_help = ''Number of failed inference requests, all batch sizes'',
          family_kind = Counter\<rparr>,
         \<lparr>family_name = ''nv_inference_count'',
          family_help = ''Number of inferences performed'',
          family_kind = Counter\<rparr>,
         \<lparr>family_name = ''nv_inference_exec_count'',
          family_help = ''Number of model executions performed'',
          family_kind = Counter\<rparr>,
         \<lparr>family_name = ''nv_inference_request_duration_us'',
          family_help = ''Cummulative inference request duration in microseconds'',
          family_kind = Counter\<rparr>,
         \<lparr>family_name = ''nv_inference_compute_duration_us'',
          family_help = ''Cummulative inference compute duration in microseconds'',
          family_kind = Counter\<rparr>,
         \<lparr>family_name = ''nv_inference_queue_duration_us'',
          family_help = ''Cummulative inference queuing duration in microseconds'',
          family_kind = Counter\<rparr>,
         \<lparr>family_name = ''nv_inference_load_ratio'',
          family_help = '''',
          family_kind = Histogram\<rparr>,
         \<lparr>family_name = ''nv_gpu_utilization'',
          family_help = ''GPU utilization rate [0.0 - 1.0)'',
          family_kind = Gauge\<rparr>,
         \<lparr>family_name = ''nv_gpu_power_usage'',
          family_help = ''GPU power usage in watts'',
          family_kind = Gauge\<rparr>,
         \<lparr>family_name = ''nv_gpu_power_limit'',
          family_help = ''GPU power management limit in watts'',
          family_kind = Gauge\<rparr>,
         \<lparr>family_name = ''nv_energy_consumption'',
          family_help = ''GPU energy consumption in joules since the trtserver started'',
          family_kind = Counter\<rparr>],
      gpu_utilization = [],
      gpu_power_usage = [],
      gpu_power_limit = [],
      gpu_energy_consumption = [],
      nvml_thread = None,
      nvml_thread_exit = False,
      exposer = None,
      logged = []\<rparr>"

section \<open>Metrics::InitializeNvmlMetrics: creating the per-device instances\<close>

text \<open>
  The body of the enumeration loop (lines 141 to 176) for device index \<open>didx\<close>. A
  failed handle query logs an error and \<^verbatim>\<open>continue\<close>s: nothing is appended for that
  index. Otherwise the name is logged when it can be read, the UUID is read (\<^verbatim>\<open>"unknown"\<close>
  when that fails), and one instance per GPU family is appended.
\<close>

definition create_gpu_metrics :: "nvml \<Rightarrow> nat \<Rightarrow> Metrics \<Rightarrow> Metrics" where
  "create_gpu_metrics nv didx m =
     (case nvmlDeviceGetHandleByIndex nv didx of
        NVML_ERROR nvmlerr \<Rightarrow>
          LOG LOG_ERROR (''failed to get device handle for GPU '' @ string_of_nat didx
                         @ '': NVML_ERROR '' @ string_of_nat nvmlerr) m
      | NVML_SUCCESS gpu \<Rightarrow>
          (let m1 = (case nvmlDeviceGetName nv gpu of
                       NVML_SUCCESS name \<Rightarrow>
                         LOG LOG_INFO (''  GPU '' @ string_of_nat didx @ '': '' @ name) m
                     | NVML_ERROR e \<Rightarrow> m);
               uuid = (case nvmlDeviceGetUUID nv gpu of
                         NVML_SUCCESS uuid_str \<Rightarrow> uuid_str
                       | NVML_ERROR e \<Rightarrow> ''unknown'');
               gpu_labels = [(kMetricsLabelGpuUuid, uuid)]
           in m1\<lparr>gpu_utilization := gpu_utilization m1 @ [Family_Add gpu_labels],
                 gpu_power_usage := gpu_power_usage m1 @ [Family_Add gpu_labels],
                 gpu_power_limit := gpu_power_limit m1 @ [Family_Add gpu_labels],
                 gpu_energy_consumption :=
                   gpu_energy_consumption m1 @ [Family_Add gpu_labels]\<rparr>))"

text \<open>The \<^verbatim>\<open>for\<close> loop over the device indices, in order.\<close>

fun create_all_gpu_metrics :: "nvml \<Rightarrow> nat list \<Rightarrow> Metrics \<Rightarrow> Metrics" where
  "create_all_gpu_metrics nv [] m = m"
| "create_all_gpu_metrics nv (didx # rest) m =
     create_all_gpu_metrics nv rest (create_gpu_metrics nv didx m)"

text \<open>
  \<^verbatim>\<open>Metrics::InitializeNvmlMetrics\<close> as far as the calling thread runs it: the two early
  returns, the enumeration, and the creation of the sampling thread when \<^verbatim>\<open>dcnt > 0\<close>.
\<close>

definition InitializeNvmlMetrics :: "nvml \<Rightarrow> Metrics \<Rightarrow> bool \<times> Metrics" where
  "InitializeNvmlMetrics nv m =
     (case nvmlInit nv of
        NVML_ERROR nvmlerr \<Rightarrow>
          (False, LOG LOG_ERROR (''failed to initialize NVML: NVML_ERROR ''
                                 @ string_of_nat nvmlerr) m)
      | NVML_SUCCESS u \<Rightarrow>
          (case nvmlDeviceGetCount nv of
             NVML_ERROR nvmlerr \<Rightarrow>
               (False, LOG LOG_ERROR
                         (''failed to get device count for nvml metrics: NVML_ERROR ''
                          @ string_of_nat nvmlerr) m)
           | NVML_SUCCESS dcnt \<Rightarrow>
               (let m1 = LOG LOG_INFO (''found '' @ string_of_nat dcnt
                                       @ '' GPUs supporting NVML metrics'') m;
                    m2 = create_all_gpu_metrics nv [0..<dcnt] m1
                in if dcnt > 0
                   then (True, m2\<lparr>nvml_thread_exit := False, nvml_thread := Some dcnt\<rparr>)
                   else (True, m2))))"

section \<open>Metrics::Initialize\<close>

text \<open>
  \<^verbatim>\<open>Metrics::Initialize(port)\<close> on the singleton: a warning and nothing else when the
  exposer exists already; otherwise the NVML set-up (its result is ignored), then the
  exposer on \<^verbatim>\<open>0.0.0.0:port\<close> with the registry as its one collectable.
\<close>

definition Initialize :: "nvml \<Rightarrow> 32 word \<Rightarrow> Metrics \<Rightarrow> Metrics" where
  "Initialize nv port singleton =
     (case exposer singleton of
        Some e \<Rightarrow> LOG LOG_WARNING ''Metrics already initialized.'' singleton
      | None \<Rightarrow>
          (let m = snd (InitializeNvmlMetrics nv singleton)
           in m\<lparr>exposer := Some (Exposer (''0.0.0.0:'' @ string_of_nat (unat port)) 1)\<rparr>))"

section \<open>The sampling thread\<close>

text \<open>
  The state the thread works on: the singleton (whose vectors it indexes by device
  index) and its local array \<^verbatim>\<open>last_energy[dcnt]\<close>.
\<close>

record thread_state =
  metrics :: Metrics
  last_energy :: "64 word list"

text \<open>
  \<^verbatim>\<open>vec[didx]->Set(v)\<close> and \<^verbatim>\<open>vec[didx]->Increment(v)\<close>. \<^verbatim>\<open>operator[]\<close> of a
  \<^verbatim>\<open>std::vector\<close> beyond its size is undefined behaviour: the result is \<open>None\<close>.
\<close>

definition Set_at :: "metric list \<Rightarrow> nat \<Rightarrow> real \<Rightarrow> metric list option" where
  "Set_at vec didx v =
     (if didx < length vec then Some (vec[didx := Gauge_Set (vec ! didx) v]) else None)"

definition Increment_at :: "metric list \<Rightarrow> nat \<Rightarrow> real \<Rightarrow> metric list option" where
  "Increment_at vec didx v =
     (if didx < length vec then Some (vec[didx := Counter_Increment (vec ! didx) v])
      else None)"

text \<open>Lines 197 to 208: the power limit, 0 when the query fails, in watts.\<close>

definition sample_power_limit ::
  "nvml \<Rightarrow> nvmlDevice_t \<Rightarrow> nat \<Rightarrow> thread_state \<Rightarrow> thread_state option" where
  "sample_power_limit nv gpu didx ts =
     (let (power_limit, m1) =
            (case nvmlDeviceGetPowerManagementLimit nv gpu of
               NVML_ERROR nvmlerr \<Rightarrow>
                 (0, LOG LOG_ERROR (''failed to get power limit for GPU ''
                       @ string_of_nat didx @ '', NVML_ERROR '' @ string_of_nat nvmlerr)
                       (metrics ts))
             | NVML_SUCCESS v \<Rightarrow> (v, metrics ts))
      in do {
        vec \<leftarrow> Set_at (gpu_power_limit m1) didx (real (unat power_limit) * 0.001);
        Some (ts\<lparr>metrics := m1\<lparr>gpu_power_limit := vec\<rparr>\<rparr>)
      })"

text \<open>Lines 210 to 220: the power usage, likewise.\<close>

definition sample_power_usage ::
  "nvml \<Rightarrow> nvmlDevice_t \<Rightarrow> nat \<Rightarrow> thread_state \<Rightarrow> thread_state option" where
  "sample_power_usage nv gpu didx ts =
     (let (power_usage, m1) =
            (case nvmlDeviceGetPowerUsage nv gpu of
               NVML_ERROR nvmlerr \<Rightarrow>
                 (0, LOG LOG_ERROR (''failed to get power usage for GPU ''
                       @ string_of_nat didx @ '', NVML_ERROR '' @ string_of_nat nvmlerr)
                       (metrics ts))
             | NVML_SUCCESS v \<Rightarrow> (v, metrics ts))
      in do {
        vec \<leftarrow> Set_at (gpu_power_usage m1) didx (real (unat power_usage) * 0.001);
        Some (ts\<lparr>metrics := m1\<lparr>gpu_power_usage := vec\<rparr>\<rparr>)
      })"

text \<open>
  Lines 222 to 238: the energy counter. A failed query only logs. Otherwise a stored
  value of 0 is first replaced by the reading, the counter is incremented by the
  difference of the two \<^verbatim>\<open>unsigned long long\<close> values (a 64-bit subtraction, converted
  to \<^verbatim>\<open>double\<close> afterwards) times 0.001, and the reading is stored.
\<close>

definition sample_energy ::
  "nvml \<Rightarrow> nvmlDevice_t \<Rightarrow> nat \<Rightarrow> thread_state \<Rightarrow> thread_state option" where
  "sample_energy nv gpu didx ts =
     (case nvmlDeviceGetTotalEnergyConsumption nv gpu of
        NVML_ERROR nvmlerr \<Rightarrow>
          Some (ts\<lparr>metrics := LOG LOG_ERROR (''failed to get energy consumption for GPU ''
                   @ string_of_nat didx @ '', NVML_ERROR '' @ string_of_nat nvmlerr)
                   (metrics ts)\<rparr>)
      | NVML_SUCCESS energy \<Rightarrow>
          (let le1 = (if last_energy ts ! didx = 0 then (last_energy ts)[didx := energy]
                      else last_energy ts)
           in do {
             vec \<leftarrow> Increment_at (gpu_energy_consumption (metrics ts)) didx
                      (real (unat (energy - le1 ! didx)) * 0.001);
             Some (ts\<lparr>metrics := (metrics ts)\<lparr>gpu_energy_consumption := vec\<rparr>,
                      last_energy := le1[didx := energy]\<rparr>)
           }))"

text \<open>Lines 240 to 250: the utilization, 0 when the query fails, as a fraction.\<close>

definition sample_utilization ::
  "nvml \<Rightarrow> nvmlDevice_t \<Rightarrow> nat \<Rightarrow> thread_state \<Rightarrow> thread_state option" where
  "sample_utilization nv gpu didx ts =
     (let (util_gpu_v, m1) =
            (case nvmlDeviceGetUtilizationRates nv gpu of
               NVML_ERROR nvmlerr \<Rightarrow>
                 (0, LOG LOG_ERROR (''failed to get utilization for GPU ''
                       @ string_of_nat didx @ '', NVML_ERROR '' @ string_of_nat nvmlerr)
                       (metrics ts))
             | NVML_SUCCESS util \<Rightarrow> (util_gpu util, metrics ts))
      in do {
        vec \<leftarrow> Set_at (gpu_utilization m1) didx (real (unat util_gpu_v) * 0.01);
        Some (ts\<lparr>metrics := m1\<lparr>gpu_utilization := vec\<rparr>\<rparr>)
      })"

text \<open>
  Lines 191 to 251: one device in one cycle. Without a handle only an error is logged;
  with one, the four blocks run one after the other.
\<close>

definition sample_device :: "nvml \<Rightarrow> nat \<Rightarrow> thread_state \<Rightarrow> thread_state option" where
  "sample_device nv didx ts =
     (case nvmlDeviceGetHandleByIndex nv didx of
        NVML_ERROR nvmlerr \<Rightarrow>
          Some (ts\<lparr>metrics := LOG LOG_ERROR (''failed to get NVML handle for GPU ''
                   @ string_of_nat didx @ '', NVML_ERROR '' @ string_of_nat nvmlerr)
                   (metrics ts)\<rparr>)
      | NVML_SUCCESS gpu \<Rightarrow> do {
          ts1 \<leftarrow> sample_power_limit nv gpu didx ts;
          ts2 \<leftarrow> sample_power_usage nv gpu didx ts1;
          ts3 \<leftarrow> sample_energy nv gpu didx ts2;
          sample_utilization nv gpu didx ts3
        })"

text \<open>The inner \<^verbatim>\<open>for\<close> loop of a cycle (line 190), over the device indices in order.\<close>

fun sample_devices :: "nvml \<Rightarrow> nat list \<Rightarrow> thread_state \<Rightarrow> thread_state option" where
  "sample_devices nv [] ts = Some ts"
| "sample_devices nv (didx # rest) ts =
     (case sample_device nv didx ts of
        None \<Rightarrow> None
      | Some ts' \<Rightarrow> sample_devices nv rest ts')"

definition sample_cycle :: "nvml \<Rightarrow> nat \<Rightarrow> thread_state \<Rightarrow> thread_state option" where
  "sample_cycle nv dcnt ts = sample_devices nv [0..<dcnt] ts"

text \<open>
  The \<^verbatim>\<open>while (!nvml_thread_exit_.load())\<close> loop (line 187). What the thread meets is a
  schedule: for each time the loop head is reached, the value the flag has then and
  what the backend answers during the cycle that follows. The loop ends with \<open>Exited\<close>
  when it reads the flag as set; a schedule that ends before that leaves it \<open>Running\<close>.
  The two seconds of sleep have no effect on the state.
\<close>

datatype 'a run = Exited (run_state: 'a) | Running (run_state: 'a)

fun nvml_thread_loop ::
  "nat \<Rightarrow> (bool \<times> nvml) list \<Rightarrow> thread_state \<Rightarrow> thread_state run option" where
  "nvml_thread_loop dcnt [] ts = Some (Running ts)"
| "nvml_thread_loop dcnt ((exit_flag, nv) # rest) ts =
     (if exit_flag then Some (Exited ts)
      else (case sample_cycle nv dcnt ts of
              None \<Rightarrow> None
            | Some ts' \<Rightarrow> nvml_thread_loop dcnt rest ts'))"

text \<open>The thread's body: \<^verbatim>\<open>last_energy\<close> starts as \<open>dcnt\<close> zeros (lines 182 to 185).\<close>

definition nvml_thread_body ::
  "nat \<Rightarrow> (bool \<times> nvml) list \<Rightarrow> Metrics \<Rightarrow> thread_state run option" where
  "nvml_thread_body dcnt schedule m =
     nvml_thread_loop dcnt schedule \<lparr>metrics = m, last_energy = replicate dcnt 0\<rparr>"

section \<open>Views of the state used to state and prove the properties\<close>

text \<open>
  What belongs to device \<open>i\<close> in a thread state: the values of its four instances (power
  limit, power usage, energy, utilization) and its entry of \<^verbatim>\<open>last_energy\<close>.
\<close>

definition slot :: "thread_state \<Rightarrow> nat \<Rightarrow> real \<times> real \<times> real \<times> real \<times> 64 word" where
  "slot ts i =
     (val (gpu_power_limit (metrics ts) ! i),
      val (gpu_power_usage (metrics ts) ! i),
      val (gpu_energy_consumption (metrics ts) ! i),
      val (gpu_utilization (metrics ts) ! i),
      last_energy ts ! i)"

text \<open>
  The four vectors and \<^verbatim>\<open>last_energy\<close> all have \<open>n\<close> entries: the situation the sampling
  loop expects, in which it can index every vector by every device index below \<open>n\<close>.
\<close>

definition sized :: "nat \<Rightarrow> thread_state \<Rightarrow> bool" where
  "sized n ts =
     (length (gpu_power_limit (metrics ts)) = n \<and>
      length (gpu_power_usage (metrics ts)) = n \<and>
      length (gpu_energy_consumption (metrics ts)) = n \<and>
      length (gpu_utilization (metrics ts)) = n \<and>
      length (last_energy ts) = n)"

text \<open>
  The effect of \<open>sample_device\<close> on the slot of its own device, written as a function of
  the slot alone. It is the right-hand side of lemma \<open>sample_device_slot\<close> below, which
  derives it from the code; no property is stated in terms of it.
\<close>

definition device_step ::
  "nvml \<Rightarrow> nat \<Rightarrow> real \<times> real \<times> real \<times> real \<times> 64 word
     \<Rightarrow> real \<times> real \<times> real \<times> real \<times> 64 word" where
  "device_step nv didx s =
     (case s of (l, u, e, t, le) \<Rightarrow>
        (case nvmlDeviceGetHandleByIndex nv didx of
           NVML_ERROR nvmlerr \<Rightarrow> s
         | NVML_SUCCESS gpu \<Rightarrow>
             ((case nvmlDeviceGetPowerManagementLimit nv gpu of
                 NVML_SUCCESS v \<Rightarrow> real (unat v) * 0.001 | NVML_ERROR x \<Rightarrow> 0),
              (case nvmlDeviceGetPowerUsage nv gpu of
                 NVML_SUCCESS v \<Rightarrow> real (unat v) * 0.001 | NVML_ERROR x \<Rightarrow> 0),
              (case nvmlDeviceGetTotalEnergyConsumption nv gpu of
                 NVML_SUCCESS energy \<Rightarrow>
                   e + real (unat (energy - (if le = 0 then energy else le))) * 0.001
               | NVML_ERROR x \<Rightarrow> e),
              (case nvmlDeviceGetUtilizationRates nv gpu of
                 NVML_SUCCESS util \<Rightarrow> real (unat (util_gpu util)) * 0.01
               | NVML_ERROR x \<Rightarrow> 0),
              (case nvmlDeviceGetTotalEnergyConsumption nv gpu of
                 NVML_SUCCESS energy \<Rightarrow> energy | NVML_ERROR x \<Rightarrow> le))))"

text \<open>
  What the enumeration loop appends to each vector for device index \<open>didx\<close>: nothing
  without a handle, one instance labelled with the UUID (or \<^verbatim>\<open>"unknown"\<close>) otherwise.
  It is the right-hand side of lemma \<open>create_gpu_metrics_vectors\<close> below.
\<close>

definition created_for :: "nvml \<Rightarrow> nat \<Rightarrow> metric list" where
  "created_for nv didx =
     (case nvmlDeviceGetHandleByIndex nv didx of
        NVML_ERROR nvmlerr \<Rightarrow> []
      | NVML_SUCCESS gpu \<Rightarrow>
          [Family_Add [(kMetricsLabelGpuUuid,
                        (case nvmlDeviceGetUUID nv gpu of
                           NVML_SUCCESS uuid_str \<Rightarrow> uuid_str
                         | NVML_ERROR e \<Rightarrow> ''unknown''))]])"

text \<open>Whether the backend returns a handle for a device index.\<close>

definition has_handle :: "nvml \<Rightarrow> nat \<Rightarrow> bool" where
  "has_handle nv didx =
     (case nvmlDeviceGetHandleByIndex nv didx of
        NVML_SUCCESS gpu \<Rightarrow> True
      | NVML_ERROR nvmlerr \<Rightarrow> False)"

section \<open>Concrete backends and runs for the examples\<close>

text \<open>
  A backend with \<open>n\<close> devices on which every query succeeds: the handle of a device is
  its index, every device reports the cumulative energy \<open>energy\<close> (milli-joules), a power
  limit of 250 W, a power usage of 120 W and a utilization of 50 percent.
\<close>

definition healthy :: "nat \<Rightarrow> 64 word \<Rightarrow> nvml" where
  "healthy n energy =
     \<lparr>nvmlInit = NVML_SUCCESS (),
      nvmlDeviceGetCount = NVML_SUCCESS n,
      nvmlDeviceGetHandleByIndex = (\<lambda>didx. NVML_SUCCESS didx),
      nvmlDeviceGetName = (\<lambda>gpu. NVML_SUCCESS ''Tesla V100''),
      nvmlDeviceGetUUID = (\<lambda>gpu. NVML_SUCCESS (''GPU-'' @ string_of_nat gpu)),
      nvmlDeviceGetPowerManagementLimit = (\<lambda>gpu. NVML_SUCCESS 250000),
      nvmlDeviceGetPowerUsage = (\<lambda>gpu. NVML_SUCCESS 120000),
      nvmlDeviceGetTotalEnergyConsumption = (\<lambda>gpu. NVML_SUCCESS energy),
      nvmlDeviceGetUtilizationRates =
        (\<lambda>gpu. NVML_SUCCESS \<lparr>util_gpu = 50, util_memory = 10\<rparr>)\<rparr>"

text \<open>The same backend with one query failing (error code 999) for one device.\<close>

definition no_handle :: "nat \<Rightarrow> nvml \<Rightarrow> nvml" where
  "no_handle k nv =
     nv\<lparr>nvmlDeviceGetHandleByIndex :=
          (\<lambda>didx. if didx = k then NVML_ERROR 999 else nvmlDeviceGetHandleByIndex nv didx)\<rparr>"

definition no_uuid :: "nvmlDevice_t \<Rightarrow> nvml \<Rightarrow> nvml" where
  "no_uuid k nv =
     nv\<lparr>nvmlDeviceGetUUID :=
          (\<lambda>gpu. if gpu = k then NVML_ERROR 999 else nvmlDeviceGetUUID nv gpu)\<rparr>"

definition no_power_usage :: "nvmlDevice_t \<Rightarrow> nvml \<Rightarrow> nvml" where
  "no_power_usage k nv =
     nv\<lparr>nvmlDeviceGetPowerUsage :=
          (\<lambda>gpu. if gpu = k then NVML_ERROR 999 else nvmlDeviceGetPowerUsage nv gpu)\<rparr>"

definition no_energy :: "nvmlDevice_t \<Rightarrow> nvml \<Rightarrow> nvml" where
  "no_energy k nv =
     nv\<lparr>nvmlDeviceGetTotalEnergyConsumption :=
          (\<lambda>gpu. if gpu = k then NVML_ERROR 999
                 else nvmlDeviceGetTotalEnergyConsumption nv gpu)\<rparr>"

definition nvml_down :: nvml where
  "nvml_down = (healthy 2 0)\<lparr>nvmlInit := NVML_ERROR 999\<rparr>"

text \<open>
  One device, initialised by \<open>InitializeNvmlMetrics\<close> from the constructor's state, and
  the sampling thread run for one cycle per element of \<open>readings\<close>, the backend returning
  that element as the cumulative energy in that cycle. \<open>energy_counter_after\<close> is the
  value of the device's energy counter afterwards, \<open>energy_baseline_after\<close> its entry of
  \<^verbatim>\<open>last_energy\<close>, and \<open>energy_increment\<close> what the last of the cycles added to the counter.
\<close>

definition energy_run :: "64 word list \<Rightarrow> thread_state run option" where
  "energy_run readings =
     nvml_thread_body 1 (map (\<lambda>energy. (False, healthy 1 energy)) readings)
       (snd (InitializeNvmlMetrics (healthy 1 0) Metrics_ctor))"

definition energy_counter_after :: "64 word list \<Rightarrow> real option" where
  "energy_counter_after readings =
     (case energy_run readings of
        Some (Running ts) \<Rightarrow> Some (val (gpu_energy_consumption (metrics ts) ! 0))
      | Some (Exited ts) \<Rightarrow> None
      | None \<Rightarrow> None)"

definition energy_baseline_after :: "64 word list \<Rightarrow> 64 word option" where
  "energy_baseline_after readings =
     (case energy_run readings of
        Some (Running ts) \<Rightarrow> Some (last_energy ts ! 0)
      | Some (Exited ts) \<Rightarrow> None
      | None \<Rightarrow> None)"

definition energy_increment :: "64 word list \<Rightarrow> real option" where
  "energy_increment readings =
     (case (energy_counter_after (butlast readings), energy_counter_after readings) of
        (Some before, Some after) \<Rightarrow> Some (after - before)
      | (Some before, None) \<Rightarrow> None
      | (None, r) \<Rightarrow> None)"

text \<open>
  The counter and the baseline of that one device, computed from the readings alone:
  the right-hand side of lemma \<open>energy_run_fold\<close> below, which derives it from the code.
\<close>

fun energy_fold :: "real \<times> 64 word \<Rightarrow> 64 word list \<Rightarrow> real \<times> 64 word" where
  "energy_fold s [] = s"
| "energy_fold (e, le) (energy # rest) =
     energy_fold
       (e + real (unat (energy - (if le = 0 then energy else le))) * 0.001, energy) rest"

text \<open>
  The state in which the sampling thread starts after \<open>InitializeNvmlMetrics\<close> has run on
  the constructor's state against \<open>healthy n 0\<close>.
\<close>

definition started :: "nat \<Rightarrow> thread_state" where
  "started n =
     \<lparr>metrics = snd (InitializeNvmlMetrics (healthy n 0) Metrics_ctor),
      last_energy = replicate n 0\<rparr>"

section \<open>Basic facts about the state\<close>

lemma Metrics_ctor_fields [simp]:
  "gpu_utilization Metrics_ctor = []" "gpu_power_usage Metrics_ctor = []"
  "gpu_power_limit Metrics_ctor = []" "gpu_energy_consumption Metrics_ctor = []"
  "nvml_thread Metrics_ctor = None" "nvml_thread_exit Metrics_ctor = False"
  "exposer Metrics_ctor = None" "logged Metrics_ctor = []"
  by (simp_all add: Metrics_ctor_def)

lemma LOG_fields [simp]:
  "registry (LOG s msg m) = registry m"
  "gpu_utilization (LOG s msg m) = gpu_utilization m"
  "gpu_power_usage (LOG s msg m) = gpu_power_usage m"
  "gpu_power_limit (LOG s msg m) = gpu_power_limit m"
  "gpu_energy_consumption (LOG s msg m) = gpu_energy_consumption m"
  "nvml_thread (LOG s msg m) = nvml_thread m"
  "nvml_thread_exit (LOG s msg m) = nvml_thread_exit m"
  "exposer (LOG s msg m) = exposer m"
  "logged (LOG s msg m) = logged m @ [(s, msg)]"
  by (simp_all add: LOG_def)

section \<open>Facts about the enumeration\<close>

lemma create_gpu_metrics_vectors:
  "gpu_utilization (create_gpu_metrics nv didx m) = gpu_utilization m @ created_for nv didx"
  "gpu_power_usage (create_gpu_metrics nv didx m) = gpu_power_usage m @ created_for nv didx"
  "gpu_power_limit (create_gpu_metrics nv didx m) = gpu_power_limit m @ created_for nv didx"
  "gpu_energy_consumption (create_gpu_metrics nv didx m) =
     gpu_energy_consumption m @ created_for nv didx"
  by (simp_all add: create_gpu_metrics_def created_for_def Let_def split: nvmlReturn_t.splits)

lemma create_gpu_metrics_rest [simp]:
  "registry (create_gpu_metrics nv didx m) = registry m"
  "nvml_thread (create_gpu_metrics nv didx m) = nvml_thread m"
  "nvml_thread_exit (create_gpu_metrics nv didx m) = nvml_thread_exit m"
  "exposer (create_gpu_metrics nv didx m) = exposer m"
  by (simp_all add: create_gpu_metrics_def Let_def split: nvmlReturn_t.splits)

lemma create_all_gpu_metrics_vectors:
  "gpu_utilization (create_all_gpu_metrics nv ds m) =
     gpu_utilization m @ concat (map (created_for nv) ds)"
  "gpu_power_usage (create_all_gpu_metrics nv ds m) =
     gpu_power_usage m @ concat (map (created_for nv) ds)"
  "gpu_power_limit (create_all_gpu_metrics nv ds m) =
     gpu_power_limit m @ concat (map (created_for nv) ds)"
  "gpu_energy_consumption (create_all_gpu_metrics nv ds m) =
     gpu_energy_consumption m @ concat (map (created_for nv) ds)"
  by (induction ds arbitrary: m; simp add: create_gpu_metrics_vectors)+

lemma create_all_gpu_metrics_rest [simp]:
  "registry (create_all_gpu_metrics nv ds m) = registry m"
  "nvml_thread (create_all_gpu_metrics nv ds m) = nvml_thread m"
  "nvml_thread_exit (create_all_gpu_metrics nv ds m) = nvml_thread_exit m"
  "exposer (create_all_gpu_metrics nv ds m) = exposer m"
  by (induction ds arbitrary: m; simp)+


lemma InitializeNvmlMetrics_rest [simp]:
  "registry (snd (InitializeNvmlMetrics nv m)) = registry m"
  "exposer (snd (InitializeNvmlMetrics nv m)) = exposer m"
  by (simp_all add: InitializeNvmlMetrics_def Let_def split: nvmlReturn_t.splits)

lemma InitializeNvmlMetrics_thread:
  "nvml_thread (snd (InitializeNvmlMetrics nv m)) =
     (case nvmlInit nv of
        NVML_ERROR e \<Rightarrow> nvml_thread m
      | NVML_SUCCESS u \<Rightarrow>
          (case nvmlDeviceGetCount nv of
             NVML_ERROR e \<Rightarrow> nvml_thread m
           | NVML_SUCCESS dcnt \<Rightarrow> if 0 < dcnt then Some dcnt else nvml_thread m))"
  by (simp add: InitializeNvmlMetrics_def Let_def split: nvmlReturn_t.splits)

lemma InitializeNvmlMetrics_vectors:
  assumes "nvmlInit nv = NVML_SUCCESS u" and "nvmlDeviceGetCount nv = NVML_SUCCESS dcnt"
  shows "gpu_utilization (snd (InitializeNvmlMetrics nv m)) =
           gpu_utilization m @ concat (map (created_for nv) [0..<dcnt])"
    and "gpu_power_usage (snd (InitializeNvmlMetrics nv m)) =
           gpu_power_usage m @ concat (map (created_for nv) [0..<dcnt])"
    and "gpu_power_limit (snd (InitializeNvmlMetrics nv m)) =
           gpu_power_limit m @ concat (map (created_for nv) [0..<dcnt])"
    and "gpu_energy_consumption (snd (InitializeNvmlMetrics nv m)) =
           gpu_energy_consumption m @ concat (map (created_for nv) [0..<dcnt])"
  using assms
  by (simp_all add: InitializeNvmlMetrics_def Let_def create_all_gpu_metrics_vectors)

lemma InitializeNvmlMetrics_failed:
  assumes "nvmlInit nv = NVML_ERROR e \<or> nvmlDeviceGetCount nv = NVML_ERROR e"
  shows "gpu_utilization (snd (InitializeNvmlMetrics nv m)) = gpu_utilization m"
    and "gpu_power_usage (snd (InitializeNvmlMetrics nv m)) = gpu_power_usage m"
    and "gpu_power_limit (snd (InitializeNvmlMetrics nv m)) = gpu_power_limit m"
    and "gpu_energy_consumption (snd (InitializeNvmlMetrics nv m)) = gpu_energy_consumption m"
    and "nvml_thread (snd (InitializeNvmlMetrics nv m)) = nvml_thread m"
    and "fst (InitializeNvmlMetrics nv m) = False"
  using assms
  by (auto simp add: InitializeNvmlMetrics_def split: nvmlReturn_t.splits)

text \<open>The families the constructor registers, in the order of its initialiser list.\<close>

lemma registry_Metrics_ctor:
  "registry Metrics_ctor =
        [\<lparr>family_name = ''nv_inference_request_success'',
          family_help = ''Number of successful inference requests, all batch sizes'',
          family_kind = Counter\<rparr>,
         \<lparr>family_name = ''nv_inference_request_failure'',
          family_help = ''Number of failed inference requests, all batch sizes'',
          family_kind = Counter\<rparr>,
         \<lparr>family_name = ''nv_inference_count'',
          family_help = ''Number of inferences performed'',
          family_kind = Counter\<rparr>,
         \<lparr>family_name = ''nv_inference_exec_count'',
          family_help = ''Number of model executions performed'',
          family_kind = Counter\<rparr>,
         \<lparr>family_name = ''nv_inference_request_duration_us'',
          family_help = ''Cummulative inference request duration in microseconds'',
          family_kind = Counter\<rparr>,
         \<lparr>family_name = ''nv_inference_compute_duration_us'',
          family_help = ''Cummulative inference compute duration in microseconds'',
          family_kind = Counter\<rparr>,
         \<lparr>family_name = ''nv_inference_queue_duration_us'',
          family_help = ''Cummulative inference queuing duration in microseconds'',
          family_kind = Counter\<rparr>,
         \<lparr>family_name = ''nv_inference_load_ratio'',
          family_help = '''',
          family_kind = Histogram\<rparr>,
         \<lparr>family_name = ''nv_gpu_utilization'',
          family_help = ''GPU utilization rate [0.0 - 1.0)'',
          family_kind = Gauge\<rparr>,
         \<lparr>family_name = ''nv_gpu_power_usage'',
          family_help = ''GPU power usage in watts'',
          family_kind = Gauge\<rparr>,
         \<lparr>family_name = ''nv_gpu_power_limit'',
          family_help = ''GPU power management limit in watts'',
          family_kind = Gauge\<rparr>,
         \<lparr>family_name = ''nv_energy_consumption'',
          family_help = ''GPU energy consumption in joules since the trtserver started'',
          family_kind = Counter\<rparr>]"
  by (simp add: Metrics_ctor_def)

section \<open>When the sampling thread is started\<close>

text \<open>
  Claim C7. After \<open>Initialize\<close> on the freshly constructed singleton, the sampling thread
  exists if and only if \<^verbatim>\<open>nvmlInit\<close> succeeded, \<^verbatim>\<open>nvmlDeviceGetCount\<close> succeeded and the
  count it returned is greater than zero. Whatever the backend does, the registry holds
  the twelve families of the constructor, the eight service-wide ones (seven counters
  and the load-ratio histogram) first and the four GPU families after them, each with its
  name, help text and kind, and the exposer is set up on the given port; when \<^verbatim>\<open>nvmlInit\<close> or \<^verbatim>\<open>nvmlDeviceGetCount\<close> fails there is no thread and no
  GPU instance in any of the four vectors.
\<close>

theorem sampling_thread_started_iff:
  "(nvml_thread (Initialize nv port Metrics_ctor) \<noteq> None) =
     (nvmlInit nv = NVML_SUCCESS () \<and>
      (\<exists>dcnt. nvmlDeviceGetCount nv = NVML_SUCCESS dcnt \<and> 0 < dcnt))
   \<and> registry (Initialize nv port Metrics_ctor) =
        [\<lparr>family_name = ''nv_inference_request_success'',
          family_help = ''Number of successful inference requests, all batch sizes'',
          family_kind = Counter\<rparr>,
         \<lparr>family_name = ''nv_inference_request_failure'',
          family_help = ''Number of failed inference requests, all batch sizes'',
          family_kind = Counter\<rparr>,
         \<lparr>family_name = ''nv_inference_count'',
          family_help = ''Number of inferences performed'',
          family_kind = Counter\<rparr>,
         \<lparr>family_name = ''nv_inference_exec_count'',
          family_help = ''Number of model executions performed'',
          family_kind = Counter\<rparr>,
         \<lparr>family_name = ''nv_inference_request_duration_us'',
          family_help = ''Cummulative inference request duration in microseconds'',
          family_kind = Counter\<rparr>,
         \<lparr>family_name = ''nv_inference_compute_duration_us'',
          family_help = ''Cummulative inference compute duration in microseconds'',
          family_kind = Counter\<rparr>,
         \<lparr>family_name = ''nv_inference_queue_duration_us'',
          family_help = ''Cummulative inference queuing duration in microseconds'',
          family_kind = Counter\<rparr>,
         \<lparr>family_name = ''nv_inference_load_ratio'',
          family_help = '''',
          family_kind = Histogram\<rparr>,
         \<lparr>family_name = ''nv_gpu_utilization'',
          family_help = ''GPU utilization rate [0.0 - 1.0)'',
          family_kind = Gauge\<rparr>,
         \<lparr>family_name = ''nv_gpu_power_usage'',
          family_help = ''GPU power usage in watts'',
          family_kind = Gauge\<rparr>,
         \<lparr>family_name = ''nv_gpu_power_limit'',
          family_help = ''GPU power management limit in watts'',
          family_kind = Gauge\<rparr>,
         \<lparr>family_name = ''nv_energy_consumption'',
          family_help = ''GPU energy consumption in joules since the trtserver started'',
          family_kind = Counter\<rparr>]
   \<and> exposer (Initialize nv port Metrics_ctor) =
       Some (Exposer (''0.0.0.0:'' @ string_of_nat (unat port)) 1)
   \<and> ((\<exists>e. nvmlInit nv = NVML_ERROR e) \<or> (\<exists>e. nvmlDeviceGetCount nv = NVML_ERROR e) \<longrightarrow>
        nvml_thread (Initialize nv port Metrics_ctor) = None \<and>
        gpu_utilization (Initialize nv port Metrics_ctor) = [] \<and>
        gpu_power_usage (Initialize nv port Metrics_ctor) = [] \<and>
        gpu_power_limit (Initialize nv port Metrics_ctor) = [] \<and>
        gpu_energy_consumption (Initialize nv port Metrics_ctor) = [])"
proof -
  let ?m = "Initialize nv port Metrics_ctor"
  have init: "?m = (snd (InitializeNvmlMetrics nv Metrics_ctor))
                \<lparr>exposer := Some (Exposer (''0.0.0.0:'' @ string_of_nat (unat port)) 1)\<rparr>"
    by (simp add: Initialize_def Let_def)
  have started: "(nvml_thread ?m \<noteq> None) =
     (nvmlInit nv = NVML_SUCCESS () \<and>
      (\<exists>dcnt. nvmlDeviceGetCount nv = NVML_SUCCESS dcnt \<and> 0 < dcnt))"
    by (simp add: init InitializeNvmlMetrics_thread split: nvmlReturn_t.splits)
  have "registry ?m = registry Metrics_ctor"
    by (simp add: init)
  then have reg: "registry ?m =
        [\<lparr>family_name = ''nv_inference_request_success'',
          family_help = ''Number of successful inference requests, all batch sizes'',
          family_kind = Counter\<rparr>,
         \<lparr>family_name = ''nv_inference_request_failure'',
          family_help = ''Number of failed inference requests, all batch sizes'',
          family_kind = Counter\<rparr>,
         \<lparr>family_name = ''nv_inference_count'',
          family_help = ''Number of inferences performed'',
          family_kind = Counter\<rparr>,
         \<lparr>family_name = ''nv_inference_exec_count'',
          family_help = ''Number of model executions performed'',
          family_kind = Counter\<rparr>,
         \<lparr>family_name = ''nv_inference_request_duration_us'',
          family_help = ''Cummulative inference request duration in microseconds'',
          family_kind = Counter\<rparr>,
         \<lparr>family_name = ''nv_inference_compute_duration_us'',
          family_help = ''Cummulative inference compute duration in microseconds'',
          family_kind = Counter\<rparr>,
         \<lparr>family_name = ''nv_inference_queue_duration_us'',
          family_help = ''Cummulative inference queuing duration in microseconds'',
          family_kind = Counter\<rparr>,
         \<lparr>family_name = ''nv_inference_load_ratio'',
          family_help = '''',
          family_kind = Histogram\<rparr>,
         \<lparr>family_name = ''nv_gpu_utilization'',
          family_help = ''GPU utilization rate [0.0 - 1.0)'',
          family_kind = Gauge\<rparr>,
         \<lparr>family_name = ''nv_gpu_power_usage'',
          family_help = ''GPU power usage in watts'',
          family_kind = Gauge\<rparr>,
         \<lparr>family_name = ''nv_gpu_power_limit'',
          family_help = ''GPU power management limit in watts'',
          family_kind = Gauge\<rparr>,
         \<lparr>family_name = ''nv_energy_consumption'',
          family_help = ''GPU energy consumption in joules since the trtserver started'',
          family_kind = Counter\<rparr>]"
    by (simp only: registry_Metrics_ctor)
  have expo: "exposer ?m = Some (Exposer (''0.0.0.0:'' @ string_of_nat (unat port)) 1)"
    by (simp add: init)
  have skipped: "nvml_thread ?m = None \<and> gpu_utilization ?m = [] \<and> gpu_power_usage ?m = [] \<and>
        gpu_power_limit ?m = [] \<and> gpu_energy_consumption ?m = []"
    if "(\<exists>e. nvmlInit nv = NVML_ERROR e) \<or> (\<exists>e. nvmlDeviceGetCount nv = NVML_ERROR e)"
  proof -
    from that obtain e where "nvmlInit nv = NVML_ERROR e \<or> nvmlDeviceGetCount nv = NVML_ERROR e"
      by blast
    then show ?thesis
      by (simp add: init InitializeNvmlMetrics_failed)
  qed
  from started reg expo skipped show ?thesis by blast
qed

text \<open>
  The theorem at a backend whose \<^verbatim>\<open>nvmlInit\<close> fails: no thread and no GPU instance,
  yet the twelve families and the exposer are there. Next to it a backend with two
  devices (thread started) and one with none (no thread).
\<close>

theorem sampling_thread_started_iff_witness:
  "nvml_thread (Initialize nvml_down 8002 Metrics_ctor) = None \<and>
   gpu_utilization (Initialize nvml_down 8002 Metrics_ctor) = [] \<and>
   gpu_energy_consumption (Initialize nvml_down 8002 Metrics_ctor) = [] \<and>
   map family_name (registry (Initialize nvml_down 8002 Metrics_ctor)) =
     [''nv_inference_request_success'', ''nv_inference_request_failure'',
      ''nv_inference_count'', ''nv_inference_exec_count'',
      ''nv_inference_request_duration_us'', ''nv_inference_compute_duration_us'',
      ''nv_inference_queue_duration_us'', ''nv_inference_load_ratio'',
      ''nv_gpu_utilization'', ''nv_gpu_power_usage'', ''nv_gpu_power_limit'',
      ''nv_energy_consumption''] \<and>
   exposer (Initialize nvml_down 8002 Metrics_ctor) = Some (Exposer ''0.0.0.0:8002'' 1) \<and>
   nvml_thread (Initialize (healthy 2 0) 8002 Metrics_ctor) = Some 2 \<and>
   nvml_thread (Initialize (healthy 0 0) 8002 Metrics_ctor) = None"
proof -
  have down: "\<exists>e. nvmlInit nvml_down = NVML_ERROR e"
    by (simp add: nvml_down_def)
  have port: "string_of_nat (unat (8002 :: 32 word)) = ''8002''"
    by (simp add: string_of_nat.simps)
  have two: "nvml_thread (Initialize (healthy 2 0) 8002 Metrics_ctor) = Some 2"
    by (simp add: Initialize_def Let_def InitializeNvmlMetrics_thread healthy_def)
  have none: "nvml_thread (Initialize (healthy 0 0) 8002 Metrics_ctor) = None"
    by (simp add: Initialize_def Let_def InitializeNvmlMetrics_thread healthy_def)
  from sampling_thread_started_iff [of nvml_down 8002] down port two none
  show ?thesis by simp
qed

section \<open>Facts about one sampling cycle\<close>

lemma sized_LOG [simp]: "sized n (ts\<lparr>metrics := LOG s msg (metrics ts)\<rparr>) = sized n ts"
  by (simp add: sized_def)

lemma slot_LOG [simp]: "slot (ts\<lparr>metrics := LOG s msg (metrics ts)\<rparr>) = slot ts"
  by (simp add: slot_def fun_eq_iff)

lemma sample_power_limit_slot:
  assumes "sized n ts" and "d < n"
  shows "\<exists>ts'. sample_power_limit nv gpu d ts = Some ts' \<and> sized n ts' \<and>
           slot ts' = (slot ts)(d := (case slot ts d of (l, u, e, t, le) \<Rightarrow>
             ((case nvmlDeviceGetPowerManagementLimit nv gpu of
                 NVML_SUCCESS v \<Rightarrow> real (unat v) * 0.001 | NVML_ERROR x \<Rightarrow> 0), u, e, t, le)))"
  using assms
  by (auto simp add: sample_power_limit_def Set_at_def Gauge_Set_def sized_def slot_def
        fun_eq_iff nth_list_update split: nvmlReturn_t.splits)

lemma sample_power_usage_slot:
  assumes "sized n ts" and "d < n"
  shows "\<exists>ts'. sample_power_usage nv gpu d ts = Some ts' \<and> sized n ts' \<and>
           slot ts' = (slot ts)(d := (case slot ts d of (l, u, e, t, le) \<Rightarrow>
             (l, (case nvmlDeviceGetPowerUsage nv gpu of
                 NVML_SUCCESS v \<Rightarrow> real (unat v) * 0.001 | NVML_ERROR x \<Rightarrow> 0), e, t, le)))"
  using assms
  by (auto simp add: sample_power_usage_def Set_at_def Gauge_Set_def sized_def slot_def
        fun_eq_iff nth_list_update split: nvmlReturn_t.splits)

lemma sample_utilization_slot:
  assumes "sized n ts" and "d < n"
  shows "\<exists>ts'. sample_utilization nv gpu d ts = Some ts' \<and> sized n ts' \<and>
           slot ts' = (slot ts)(d := (case slot ts d of (l, u, e, t, le) \<Rightarrow>
             (l, u, e, (case nvmlDeviceGetUtilizationRates nv gpu of
                 NVML_SUCCESS util \<Rightarrow> real (unat (util_gpu util)) * 0.01
               | NVML_ERROR x \<Rightarrow> 0), le)))"
  using assms
  by (auto simp add: sample_utilization_def Set_at_def Gauge_Set_def sized_def slot_def
        fun_eq_iff nth_list_update split: nvmlReturn_t.splits)

lemma sample_energy_slot:
  assumes "sized n ts" and "d < n"
  shows "\<exists>ts'. sample_energy nv gpu d ts = Some ts' \<and> sized n ts' \<and>
           slot ts' = (slot ts)(d := (case slot ts d of (l, u, e, t, le) \<Rightarrow>
             (l, u,
              (case nvmlDeviceGetTotalEnergyConsumption nv gpu of
                 NVML_SUCCESS energy \<Rightarrow>
                   e + real (unat (energy - (if le = 0 then energy else le))) * 0.001
               | NVML_ERROR x \<Rightarrow> e),
              t,
              (case nvmlDeviceGetTotalEnergyConsumption nv gpu of
                 NVML_SUCCESS energy \<Rightarrow> energy | NVML_ERROR x \<Rightarrow> le))))"
  using assms
  by (auto simp add: sample_energy_def Increment_at_def Counter_Increment_def sized_def
        slot_def fun_eq_iff nth_list_update Let_def split: nvmlReturn_t.splits)


lemma sample_device_slot:
  assumes "sized n ts" and "d < n"
  shows "\<exists>ts'. sample_device nv d ts = Some ts' \<and> sized n ts' \<and>
           slot ts' = (slot ts)(d := device_step nv d (slot ts d))"
proof (cases "nvmlDeviceGetHandleByIndex nv d")
  case (NVML_ERROR nvmlerr)
  with assms show ?thesis
    by (simp add: sample_device_def device_step_def split: prod.splits)
next
  case (NVML_SUCCESS gpu)
  from sample_power_limit_slot [OF assms, of nv gpu] obtain ts1 where
    s1: "sample_power_limit nv gpu d ts = Some ts1" "sized n ts1" and
    v1: "slot ts1 = (slot ts)(d := (case slot ts d of (l, u, e, t, le) \<Rightarrow>
             ((case nvmlDeviceGetPowerManagementLimit nv gpu of
                 NVML_SUCCESS v \<Rightarrow> real (unat v) * 0.001 | NVML_ERROR x \<Rightarrow> 0), u, e, t, le)))"
    by blast
  from sample_power_usage_slot [OF s1(2) assms(2), of nv gpu] obtain ts2 where
    s2: "sample_power_usage nv gpu d ts1 = Some ts2" "sized n ts2" and
    v2: "slot ts2 = (slot ts1)(d := (case slot ts1 d of (l, u, e, t, le) \<Rightarrow>
             (l, (case nvmlDeviceGetPowerUsage nv gpu of
                 NVML_SUCCESS v \<Rightarrow> real (unat v) * 0.001 | NVML_ERROR x \<Rightarrow> 0), e, t, le)))"
    by blast
  from sample_energy_slot [OF s2(2) assms(2), of nv gpu] obtain ts3 where
    s3: "sample_energy nv gpu d ts2 = Some ts3" "sized n ts3" and
    v3: "slot ts3 = (slot ts2)(d := (case slot ts2 d of (l, u, e, t, le) \<Rightarrow>
             (l, u,
              (case nvmlDeviceGetTotalEnergyConsumption nv gpu of
                 NVML_SUCCESS energy \<Rightarrow>
                   e + real (unat (energy - (if le = 0 then energy else le))) * 0.001
               | NVML_ERROR x \<Rightarrow> e),
              t,
              (case nvmlDeviceGetTotalEnergyConsumption nv gpu of
                 NVML_SUCCESS energy \<Rightarrow> energy | NVML_ERROR x \<Rightarrow> le))))"
    by blast
  from sample_utilization_slot [OF s3(2) assms(2), of nv gpu] obtain ts4 where
    s4: "sample_utilization nv gpu d ts3 = Some ts4" "sized n ts4" and
    v4: "slot ts4 = (slot ts3)(d := (case slot ts3 d of (l, u, e, t, le) \<Rightarrow>
             (l, u, e, (case nvmlDeviceGetUtilizationRates nv gpu of
                 NVML_SUCCESS util \<Rightarrow> real (unat (util_gpu util)) * 0.01
               | NVML_ERROR x \<Rightarrow> 0), le)))"
    by blast
  have run: "sample_device nv d ts = Some ts4"
    by (simp add: sample_device_def NVML_SUCCESS s1 s2 s3 s4)
  have "slot ts4 = (slot ts)(d := device_step nv d (slot ts d))"
    by (simp add: v4 v3 v2 v1 device_step_def NVML_SUCCESS split: prod.splits)
  with run s4(2) show ?thesis by blast
qed

lemma sample_devices_slot:
  assumes "sized n ts" and "\<forall>d \<in> set ds. d < n" and "distinct ds"
  shows "\<exists>ts'. sample_devices nv ds ts = Some ts' \<and> sized n ts' \<and>
           slot ts' = (\<lambda>i. if i \<in> set ds then device_step nv i (slot ts i) else slot ts i)"
  using assms
proof (induction ds arbitrary: ts)
  case Nil
  then show ?case by simp
next
  case (Cons d ds)
  from Cons.prems have "d < n" by simp
  from sample_device_slot [OF Cons.prems(1) this, of nv] obtain ts1 where
    s1: "sample_device nv d ts = Some ts1" "sized n ts1" and
    v1: "slot ts1 = (slot ts)(d := device_step nv d (slot ts d))"
    by blast
  from Cons.prems have rest: "\<forall>d \<in> set ds. d < n" "distinct ds" and fresh: "d \<notin> set ds"
    by simp_all
  from Cons.IH [OF s1(2) rest] obtain ts' where
    s2: "sample_devices nv ds ts1 = Some ts'" "sized n ts'" and
    v2: "slot ts' = (\<lambda>i. if i \<in> set ds then device_step nv i (slot ts1 i) else slot ts1 i)"
    by blast
  have "slot ts' = (\<lambda>i. if i \<in> set (d # ds) then device_step nv i (slot ts i) else slot ts i)"
    using fresh by (auto simp add: v2 v1 fun_eq_iff)
  with s1 s2 show ?case by simp
qed

lemma sample_cycle_slot:
  assumes "sized dcnt ts"
  shows "\<exists>ts'. sample_cycle nv dcnt ts = Some ts' \<and> sized dcnt ts' \<and>
           (\<forall>i < dcnt. slot ts' i = device_step nv i (slot ts i))"
proof -
  from sample_devices_slot [OF assms, of "[0..<dcnt]" nv] obtain ts' where
    "sample_devices nv [0..<dcnt] ts = Some ts'" "sized dcnt ts'"
    "slot ts' = (\<lambda>i. if i \<in> set [0..<dcnt] then device_step nv i (slot ts i) else slot ts i)"
    by auto
  then show ?thesis
    by (auto simp add: sample_cycle_def)
qed

section \<open>Facts about the concrete backends\<close>

lemma created_for_length:
  "length (concat (map (created_for nv) ds)) = length (filter (has_handle nv) ds)"
  by (induction ds) (simp_all add: created_for_def has_handle_def split: nvmlReturn_t.splits)

lemma has_handle_healthy [simp]: "has_handle (healthy n energy) didx"
  by (simp add: has_handle_def healthy_def)

lemma healthy_queries [simp]:
  "nvmlInit (healthy n energy) = NVML_SUCCESS ()"
  "nvmlDeviceGetCount (healthy n energy) = NVML_SUCCESS n"
  "nvmlDeviceGetHandleByIndex (healthy n energy) didx = NVML_SUCCESS didx"
  "nvmlDeviceGetName (healthy n energy) gpu = NVML_SUCCESS ''Tesla V100''"
  "nvmlDeviceGetUUID (healthy n energy) gpu = NVML_SUCCESS (''GPU-'' @ string_of_nat gpu)"
  "nvmlDeviceGetPowerManagementLimit (healthy n energy) gpu = NVML_SUCCESS 250000"
  "nvmlDeviceGetPowerUsage (healthy n energy) gpu = NVML_SUCCESS 120000"
  "nvmlDeviceGetTotalEnergyConsumption (healthy n energy) gpu = NVML_SUCCESS energy"
  "nvmlDeviceGetUtilizationRates (healthy n energy) gpu =
     NVML_SUCCESS \<lparr>util_gpu = 50, util_memory = 10\<rparr>"
  by (simp_all add: healthy_def)

lemma sized_started [simp]: "sized n (started n)"
  by (simp add: sized_def started_def InitializeNvmlMetrics_vectors [where u = "()"]
        created_for_length)


lemma upt_split_at: "j < n \<Longrightarrow> [0..<n] = [0..<j] @ j # [Suc j..<n]"
  using upt_add_eq_append [of 0 j "n - j"] by (simp add: upt_conv_Cons)

lemma created_for_nth:
  assumes "j < dcnt" and "nvmlDeviceGetHandleByIndex nv j = NVML_SUCCESS gpu"
  shows "concat (map (created_for nv) [0..<dcnt]) ! length (filter (has_handle nv) [0..<j]) =
           Family_Add [(kMetricsLabelGpuUuid,
                        (case nvmlDeviceGetUUID nv gpu of
                           NVML_SUCCESS uuid_str \<Rightarrow> uuid_str
                         | NVML_ERROR e \<Rightarrow> ''unknown''))]"
proof -
  have here: "created_for nv j =
      [Family_Add [(kMetricsLabelGpuUuid,
                    (case nvmlDeviceGetUUID nv gpu of
                       NVML_SUCCESS uuid_str \<Rightarrow> uuid_str
                     | NVML_ERROR e \<Rightarrow> ''unknown''))]]"
    by (simp add: created_for_def assms(2))
  have "concat (map (created_for nv) [0..<dcnt]) =
          concat (map (created_for nv) [0..<j]) @
          (created_for nv j @ concat (map (created_for nv) [Suc j..<dcnt]))"
    by (simp add: upt_split_at [OF assms(1)])
  then show ?thesis
    by (simp add: here nth_append created_for_length)
qed

lemma filter_has_handle_healthy [simp]:
  "filter (has_handle (healthy n energy)) ds = ds"
  by (induction ds) simp_all

lemma slot_started [simp]: "i < n \<Longrightarrow> slot (started n) i = (0, 0, 0, 0, 0)"
  using created_for_nth [of i n "healthy n 0" i]
  by (simp add: slot_def started_def InitializeNvmlMetrics_vectors [where u = "()"]
        Family_Add_def)

section \<open>Unit conversion\<close>

text \<open>
  Claim C8. In a sampling cycle over vectors that have an entry for every device, a
  device whose handle is obtained has, after the cycle, its power-limit gauge at
  \<open>v * 0.001\<close> when the limit query returned \<open>v\<close>, its power-usage gauge at \<open>v * 0.001\<close>
  when the usage query returned \<open>v\<close>, and its utilization gauge at \<open>u * 0.01\<close> when the
  utilization query returned \<open>u\<close> (for every \<open>u\<close>, so also for those from 0 to 100). The
  values are real numbers: the products are exact.
\<close>

theorem unit_conversion:
  assumes "sized dcnt ts"
    and "didx < dcnt"
    and "nvmlDeviceGetHandleByIndex nv didx = NVML_SUCCESS gpu"
  shows "\<exists>ts'. sample_cycle nv dcnt ts = Some ts' \<and>
           (\<forall>v. nvmlDeviceGetPowerManagementLimit nv gpu = NVML_SUCCESS v \<longrightarrow>
                val (gpu_power_limit (metrics ts') ! didx) = real (unat v) * 0.001) \<and>
           (\<forall>v. nvmlDeviceGetPowerUsage nv gpu = NVML_SUCCESS v \<longrightarrow>
                val (gpu_power_usage (metrics ts') ! didx) = real (unat v) * 0.001) \<and>
           (\<forall>util. nvmlDeviceGetUtilizationRates nv gpu = NVML_SUCCESS util \<longrightarrow>
                val (gpu_utilization (metrics ts') ! didx) = real (unat (util_gpu util)) * 0.01)"
proof -
  from sample_cycle_slot [OF assms(1), of nv] obtain ts' where
    run: "sample_cycle nv dcnt ts = Some ts'" and
    at: "\<forall>i < dcnt. slot ts' i = device_step nv i (slot ts i)"
    by blast
  from at assms(2) have "slot ts' didx = device_step nv didx (slot ts didx)"
    by blast
  then have
    "(\<forall>v. nvmlDeviceGetPowerManagementLimit nv gpu = NVML_SUCCESS v \<longrightarrow>
          val (gpu_power_limit (metrics ts') ! didx) = real (unat v) * 0.001) \<and>
     (\<forall>v. nvmlDeviceGetPowerUsage nv gpu = NVML_SUCCESS v \<longrightarrow>
          val (gpu_power_usage (metrics ts') ! didx) = real (unat v) * 0.001) \<and>
     (\<forall>util. nvmlDeviceGetUtilizationRates nv gpu = NVML_SUCCESS util \<longrightarrow>
          val (gpu_utilization (metrics ts') ! didx) = real (unat (util_gpu util)) * 0.01)"
    by (simp add: slot_def device_step_def assms(3))
  with run show ?thesis by blast
qed

text \<open>
  The theorem at the second of two devices: 250000 mW, 120000 mW and 50 percent become
  250 W, 120 W and 0.5.
\<close>

theorem unit_conversion_witness:
  "\<exists>ts'. sample_cycle (healthy 2 7000) 2 (started 2) = Some ts' \<and>
     val (gpu_power_limit (metrics ts') ! 1) = 250 \<and>
     val (gpu_power_usage (metrics ts') ! 1) = 120 \<and>
     val (gpu_utilization (metrics ts') ! 1) = 0.5"
proof -
  have "sized 2 (started 2)" and "(1::nat) < 2"
    and "nvmlDeviceGetHandleByIndex (healthy 2 7000) 1 = NVML_SUCCESS 1"
    by simp_all
  from unit_conversion [OF this] obtain ts' where
    run: "sample_cycle (healthy 2 7000) 2 (started 2) = Some ts'" and
    limit: "\<forall>v. nvmlDeviceGetPowerManagementLimit (healthy 2 7000) 1 = NVML_SUCCESS v \<longrightarrow>
                val (gpu_power_limit (metrics ts') ! 1) = real (unat v) * 0.001" and
    usage: "\<forall>v. nvmlDeviceGetPowerUsage (healthy 2 7000) 1 = NVML_SUCCESS v \<longrightarrow>
                val (gpu_power_usage (metrics ts') ! 1) = real (unat v) * 0.001" and
    util: "\<forall>util. nvmlDeviceGetUtilizationRates (healthy 2 7000) 1 = NVML_SUCCESS util \<longrightarrow>
                val (gpu_utilization (metrics ts') ! 1) = real (unat (util_gpu util)) * 0.01"
    by blast
  from limit have "val (gpu_power_limit (metrics ts') ! 1) = 250" by simp
  moreover from usage have "val (gpu_power_usage (metrics ts') ! 1) = 120" by simp
  moreover from util have "val (gpu_utilization (metrics ts') ! 1) = 0.5" by simp
  ultimately show ?thesis using run by blast
qed

section \<open>A failed query stays local\<close>

text \<open>
  Claim C4. A sampling cycle over vectors that have an entry for every device always
  runs to its end, and in the state it ends in every device whose handle is obtained
  has each of its metrics decided by that metric's own query alone: the power-limit,
  power-usage and utilization gauges are 0 when their query failed and the converted
  reading otherwise; the energy counter and the stored \<^verbatim>\<open>last_energy\<close> are unchanged when
  the energy query failed, and are incremented and replaced otherwise. So a failure of
  one query of one device neither stops the other metrics of that device nor any metric
  of another device from being updated in the same cycle.
\<close>

theorem query_failure_is_local:
  assumes "sized dcnt ts"
  shows "\<exists>ts'. sample_cycle nv dcnt ts = Some ts' \<and> sized dcnt ts' \<and>
           (\<forall>didx < dcnt. \<forall>gpu. nvmlDeviceGetHandleByIndex nv didx = NVML_SUCCESS gpu \<longrightarrow>
              val (gpu_power_limit (metrics ts') ! didx) =
                (case nvmlDeviceGetPowerManagementLimit nv gpu of
                   NVML_SUCCESS v \<Rightarrow> real (unat v) * 0.001 | NVML_ERROR e \<Rightarrow> 0) \<and>
              val (gpu_power_usage (metrics ts') ! didx) =
                (case nvmlDeviceGetPowerUsage nv gpu of
                   NVML_SUCCESS v \<Rightarrow> real (unat v) * 0.001 | NVML_ERROR e \<Rightarrow> 0) \<and>
              val (gpu_utilization (metrics ts') ! didx) =
                (case nvmlDeviceGetUtilizationRates nv gpu of
                   NVML_SUCCESS util \<Rightarrow> real (unat (util_gpu util)) * 0.01
                 | NVML_ERROR e \<Rightarrow> 0) \<and>
              (case nvmlDeviceGetTotalEnergyConsumption nv gpu of
                 NVML_ERROR e \<Rightarrow>
                   val (gpu_energy_consumption (metrics ts') ! didx) =
                     val (gpu_energy_consumption (metrics ts) ! didx) \<and>
                   last_energy ts' ! didx = last_energy ts ! didx
               | NVML_SUCCESS energy \<Rightarrow>
                   val (gpu_energy_consumption (metrics ts') ! didx) =
                     val (gpu_energy_consumption (metrics ts) ! didx) +
                     real (unat (energy - (if last_energy ts ! didx = 0 then energy
                                           else last_energy ts ! didx))) * 0.001 \<and>
                   last_energy ts' ! didx = energy))"
proof -
  from sample_cycle_slot [OF assms, of nv] obtain ts' where
    run: "sample_cycle nv dcnt ts = Some ts'" "sized dcnt ts'" and
    at: "\<forall>i < dcnt. slot ts' i = device_step nv i (slot ts i)"
    by blast
  have "val (gpu_power_limit (metrics ts') ! didx) =
          (case nvmlDeviceGetPowerManagementLimit nv gpu of
             NVML_SUCCESS v \<Rightarrow> real (unat v) * 0.001 | NVML_ERROR e \<Rightarrow> 0) \<and>
        val (gpu_power_usage (metrics ts') ! didx) =
          (case nvmlDeviceGetPowerUsage nv gpu of
             NVML_SUCCESS v \<Rightarrow> real (unat v) * 0.001 | NVML_ERROR e \<Rightarrow> 0) \<and>
        val (gpu_utilization (metrics ts') ! didx) =
          (case nvmlDeviceGetUtilizationRates nv gpu of
             NVML_SUCCESS util \<Rightarrow> real (unat (util_gpu util)) * 0.01
           | NVML_ERROR e \<Rightarrow> 0) \<and>
        (case nvmlDeviceGetTotalEnergyConsumption nv gpu of
           NVML_ERROR e \<Rightarrow>
             val (gpu_energy_consumption (metrics ts') ! didx) =
               val (gpu_energy_consumption (metrics ts) ! didx) \<and>
             last_energy ts' ! didx = last_energy ts ! didx
         | NVML_SUCCESS energy \<Rightarrow>
             val (gpu_energy_consumption (metrics ts') ! didx) =
               val (gpu_energy_consumption (metrics ts) ! didx) +
               real (unat (energy - (if last_energy ts ! didx = 0 then energy
                                     else last_energy ts ! didx))) * 0.001 \<and>
             last_energy ts' ! didx = energy)"
    if "didx < dcnt" and "nvmlDeviceGetHandleByIndex nv didx = NVML_SUCCESS gpu"
    for didx gpu
  proof -
    from at that(1) have "slot ts' didx = device_step nv didx (slot ts didx)"
      by blast
    then show ?thesis
      by (simp add: slot_def device_step_def that(2) split: nvmlReturn_t.splits)
  qed
  with run show ?thesis by blast
qed


text \<open>
  The theorem on two devices, over two cycles. The first cycle succeeds everywhere. In
  the second the power-usage query of device 0 and the energy query of device 1 fail:
  the usage gauge of device 0 drops from 120 to 0 while its limit, utilization and
  energy are updated, and device 1 keeps its energy counter and baseline while its
  three gauges are updated.
\<close>

theorem query_failure_is_local_witness:
  "\<exists>ts1 ts2.
     sample_cycle (healthy 2 5000) 2 (started 2) = Some ts1 \<and>
     sample_cycle (no_energy 1 (no_power_usage 0 (healthy 2 7000))) 2 ts1 = Some ts2 \<and>
     val (gpu_power_usage (metrics ts1) ! 0) = 120 \<and>
     val (gpu_power_usage (metrics ts2) ! 0) = 0 \<and>
     val (gpu_power_limit (metrics ts2) ! 0) = 250 \<and>
     val (gpu_utilization (metrics ts2) ! 0) = 0.5 \<and>
     val (gpu_energy_consumption (metrics ts2) ! 0) = 2 \<and>
     last_energy ts2 ! 0 = 7000 \<and>
     val (gpu_power_usage (metrics ts2) ! 1) = 120 \<and>
     val (gpu_power_limit (metrics ts2) ! 1) = 250 \<and>
     val (gpu_utilization (metrics ts2) ! 1) = 0.5 \<and>
     val (gpu_energy_consumption (metrics ts2) ! 1) = 0 \<and>
     last_energy ts1 ! 1 = 5000 \<and>
     last_energy ts2 ! 1 = 5000"
proof -
  let ?nv1 = "healthy 2 5000"
  let ?nv2 = "no_energy 1 (no_power_usage 0 (healthy 2 7000))"
  have start: "val (gpu_energy_consumption (metrics (started 2)) ! 0) = 0"
    "val (gpu_energy_consumption (metrics (started 2)) ! 1) = 0"
    "last_energy (started 2) ! 0 = 0" "last_energy (started 2) ! 1 = 0"
    using slot_started [of 0 2] slot_started [of 1 2] by (simp_all add: slot_def)
  from query_failure_is_local [OF sized_started, of ?nv1 2] obtain ts1 where
    run1: "sample_cycle ?nv1 2 (started 2) = Some ts1" and size1: "sized 2 ts1" and
    all1: "\<forall>didx < 2. \<forall>gpu. nvmlDeviceGetHandleByIndex ?nv1 didx = NVML_SUCCESS gpu \<longrightarrow>
              val (gpu_power_limit (metrics ts1) ! didx) =
                (case nvmlDeviceGetPowerManagementLimit ?nv1 gpu of
                   NVML_SUCCESS v \<Rightarrow> real (unat v) * 0.001 | NVML_ERROR e \<Rightarrow> 0) \<and>
              val (gpu_power_usage (metrics ts1) ! didx) =
                (case nvmlDeviceGetPowerUsage ?nv1 gpu of
                   NVML_SUCCESS v \<Rightarrow> real (unat v) * 0.001 | NVML_ERROR e \<Rightarrow> 0) \<and>
              val (gpu_utilization (metrics ts1) ! didx) =
                (case nvmlDeviceGetUtilizationRates ?nv1 gpu of
                   NVML_SUCCESS util \<Rightarrow> real (unat (util_gpu util)) * 0.01
                 | NVML_ERROR e \<Rightarrow> 0) \<and>
              (case nvmlDeviceGetTotalEnergyConsumption ?nv1 gpu of
                 NVML_ERROR e \<Rightarrow>
                   val (gpu_energy_consumption (metrics ts1) ! didx) =
                     val (gpu_energy_consumption (metrics (started 2)) ! didx) \<and>
                   last_energy ts1 ! didx = last_energy (started 2) ! didx
               | NVML_SUCCESS energy \<Rightarrow>
                   val (gpu_energy_consumption (metrics ts1) ! didx) =
                     val (gpu_energy_consumption (metrics (started 2)) ! didx) +
                     real (unat (energy - (if last_energy (started 2) ! didx = 0 then energy
                                           else last_energy (started 2) ! didx))) * 0.001 \<and>
                   last_energy ts1 ! didx = energy)"
    by blast
  from all1 [rule_format, of 0 0] all1 [rule_format, of 1 1] start
  have first: "val (gpu_power_usage (metrics ts1) ! 0) = 120"
    "val (gpu_energy_consumption (metrics ts1) ! 0) = 0" "last_energy ts1 ! 0 = 5000"
    "val (gpu_energy_consumption (metrics ts1) ! 1) = 0" "last_energy ts1 ! 1 = 5000"
    by simp_all
  from query_failure_is_local [OF size1, of ?nv2] obtain ts2 where
    run2: "sample_cycle ?nv2 2 ts1 = Some ts2" and
    all2: "\<forall>didx < 2. \<forall>gpu. nvmlDeviceGetHandleByIndex ?nv2 didx = NVML_SUCCESS gpu \<longrightarrow>
              val (gpu_power_limit (metrics ts2) ! didx) =
                (case nvmlDeviceGetPowerManagementLimit ?nv2 gpu of
                   NVML_SUCCESS v \<Rightarrow> real (unat v) * 0.001 | NVML_ERROR e \<Rightarrow> 0) \<and>
              val (gpu_power_usage (metrics ts2) ! didx) =
                (case nvmlDeviceGetPowerUsage ?nv2 gpu of
                   NVML_SUCCESS v \<Rightarrow> real (unat v) * 0.001 | NVML_ERROR e \<Rightarrow> 0) \<and>
              val (gpu_utilization (metrics ts2) ! didx) =
                (case nvmlDeviceGetUtilizationRates ?nv2 gpu of
                   NVML_SUCCESS util \<Rightarrow> real (unat (util_gpu util)) * 0.01
                 | NVML_ERROR e \<Rightarrow> 0) \<and>
              (case nvmlDeviceGetTotalEnergyConsumption ?nv2 gpu of
                 NVML_ERROR e \<Rightarrow>
                   val (gpu_energy_consumption (metrics ts2) ! didx) =
                     val (gpu_energy_consumption (metrics ts1) ! didx) \<and>
                   last_energy ts2 ! didx = last_energy ts1 ! didx
               | NVML_SUCCESS energy \<Rightarrow>
                   val (gpu_energy_consumption (metrics ts2) ! didx) =
                     val (gpu_energy_consumption (metrics ts1) ! didx) +
                     real (unat (energy - (if last_energy ts1 ! didx = 0 then energy
                                           else last_energy ts1 ! didx))) * 0.001 \<and>
                   last_energy ts2 ! didx = energy)"
    by blast
  have q0: "nvmlDeviceGetHandleByIndex ?nv2 0 = NVML_SUCCESS 0"
    "nvmlDeviceGetPowerManagementLimit ?nv2 0 = NVML_SUCCESS 250000"
    "nvmlDeviceGetPowerUsage ?nv2 0 = NVML_ERROR 999"
    "nvmlDeviceGetUtilizationRates ?nv2 0 = NVML_SUCCESS \<lparr>util_gpu = 50, util_memory = 10\<rparr>"
    "nvmlDeviceGetTotalEnergyConsumption ?nv2 0 = NVML_SUCCESS 7000"
    by (simp_all add: no_energy_def no_power_usage_def)
  have q1: "nvmlDeviceGetHandleByIndex ?nv2 1 = NVML_SUCCESS 1"
    "nvmlDeviceGetPowerManagementLimit ?nv2 1 = NVML_SUCCESS 250000"
    "nvmlDeviceGetPowerUsage ?nv2 1 = NVML_SUCCESS 120000"
    "nvmlDeviceGetUtilizationRates ?nv2 1 = NVML_SUCCESS \<lparr>util_gpu = 50, util_memory = 10\<rparr>"
    "nvmlDeviceGetTotalEnergyConsumption ?nv2 1 = NVML_ERROR 999"
    by (simp_all add: no_energy_def no_power_usage_def)
  from all2 [rule_format, of 0 0] q0 first
  have second0: "val (gpu_power_usage (metrics ts2) ! 0) = 0"
    "val (gpu_power_limit (metrics ts2) ! 0) = 250"
    "val (gpu_utilization (metrics ts2) ! 0) = 0.5"
    "val (gpu_energy_consumption (metrics ts2) ! 0) = 2"
    "last_energy ts2 ! 0 = 7000"
    by simp_all
  from all2 [rule_format, of 1 1] q1 first
  have second1: "val (gpu_power_usage (metrics ts2) ! 1) = 120"
    "val (gpu_power_limit (metrics ts2) ! 1) = 250"
    "val (gpu_utilization (metrics ts2) ! 1) = 0.5"
    "val (gpu_energy_consumption (metrics ts2) ! 1) = 0"
    "last_energy ts2 ! 1 = 5000"
    by simp_all
  show ?thesis
    by (intro exI [of _ ts1] exI [of _ ts2] conjI)
      (simp_all only: run1 run2 first second0 second1)
qed

section \<open>Energy accounting\<close>

text \<open>
  The one device of \<open>energy_run\<close>: the loop never stops on its own, and the counter and
  the baseline after the readings are those of \<open>energy_fold\<close>.
\<close>

lemma energy_loop:
  assumes "sized 1 ts"
  shows "\<exists>ts'. nvml_thread_loop 1 (map (\<lambda>energy. (False, healthy 1 energy)) readings) ts
                 = Some (Running ts') \<and> sized 1 ts' \<and>
               val (gpu_energy_consumption (metrics ts') ! 0) =
                 fst (energy_fold (val (gpu_energy_consumption (metrics ts) ! 0),
                                   last_energy ts ! 0) readings) \<and>
               last_energy ts' ! 0 =
                 snd (energy_fold (val (gpu_energy_consumption (metrics ts) ! 0),
                                   last_energy ts ! 0) readings)"
  using assms
proof (induction readings arbitrary: ts)
  case Nil
  then show ?case by simp
next
  case (Cons energy rest)
  from sample_cycle_slot [OF Cons.prems, of "healthy 1 energy"] obtain ts1 where
    run: "sample_cycle (healthy 1 energy) 1 ts = Some ts1" "sized 1 ts1" and
    at: "slot ts1 0 = device_step (healthy 1 energy) 0 (slot ts 0)"
    by auto
  from at have step:
    "val (gpu_energy_consumption (metrics ts1) ! 0) =
       val (gpu_energy_consumption (metrics ts) ! 0) +
       real (unat (energy - (if last_energy ts ! 0 = 0 then energy else last_energy ts ! 0)))
         * 0.001"
    "last_energy ts1 ! 0 = energy"
    by (simp_all add: slot_def device_step_def)
  from Cons.IH [OF run(2)] run(1) step show ?case
    by simp
qed

lemma energy_run_fold:
  "energy_counter_after readings = Some (fst (energy_fold (0, 0) readings))"
  "energy_baseline_after readings = Some (snd (energy_fold (0, 0) readings))"
proof -
  have zero: "val (gpu_energy_consumption (metrics (started 1)) ! 0) = 0"
    "last_energy (started 1) ! 0 = 0"
    using slot_started [of 0 1] by (simp_all add: slot_def)
  from energy_loop [OF sized_started, of readings] obtain ts' where
    "energy_run readings = Some (Running ts')"
    "val (gpu_energy_consumption (metrics ts') ! 0) = fst (energy_fold (0, 0) readings)"
    "last_energy ts' ! 0 = snd (energy_fold (0, 0) readings)"
    unfolding zero by (auto simp add: energy_run_def nvml_thread_body_def started_def)
  then show "energy_counter_after readings = Some (fst (energy_fold (0, 0) readings))"
    "energy_baseline_after readings = Some (snd (energy_fold (0, 0) readings))"
    by (simp_all add: energy_counter_after_def energy_baseline_after_def)
qed

lemma first_cycle:
  "\<exists>ts1. sample_cycle (healthy n energy) n (started n) = Some ts1 \<and> sized n ts1 \<and>
         (\<forall>i < n. val (gpu_energy_consumption (metrics ts1) ! i) = 0 \<and>
                  last_energy ts1 ! i = energy)"
proof -
  from sample_cycle_slot [OF sized_started, of "healthy n energy" n] obtain ts1 where
    run: "sample_cycle (healthy n energy) n (started n) = Some ts1" "sized n ts1" and
    at: "\<forall>i < n. slot ts1 i = device_step (healthy n energy) i (slot (started n) i)"
    by blast
  have "val (gpu_energy_consumption (metrics ts1) ! i) = 0 \<and> last_energy ts1 ! i = energy"
    if "i < n" for i
    using at [rule_format, OF that] slot_started [OF that]
    by (simp add: slot_def device_step_def)
  with run show ?thesis by blast
qed

text \<open>
  Claim C1, as amended. The thread starts with a stored value of 0 for every device. In
  a cycle over vectors that have an entry for every device, a device whose handle and
  cumulative energy are read successfully has the reading stored as its \<^verbatim>\<open>last_energy\<close>
  afterwards, and its counter never decreases. When the stored value was 0 (no baseline
  yet: before the first successful read, and after a read that returned 0) the counter
  is left as it was. When the stored value was not 0 and not above the reading, the
  counter grows by (reading - stored value) * 0.001. What happens when the reading is
  below a nonzero stored value is the subject of claim C10.
\<close>

theorem energy_accounting:
  assumes "sized dcnt ts"
    and "didx < dcnt"
    and "nvmlDeviceGetHandleByIndex nv didx = NVML_SUCCESS gpu"
    and "nvmlDeviceGetTotalEnergyConsumption nv gpu = NVML_SUCCESS energy"
  shows "(\<exists>ts0. nvml_thread_body dcnt [] m = Some (Running ts0) \<and> last_energy ts0 ! didx = 0) \<and>
         (\<exists>ts'. sample_cycle nv dcnt ts = Some ts' \<and> sized dcnt ts' \<and>
            last_energy ts' ! didx = energy \<and>
            val (gpu_energy_consumption (metrics ts) ! didx)
              \<le> val (gpu_energy_consumption (metrics ts') ! didx) \<and>
            (last_energy ts ! didx = 0 \<longrightarrow>
               val (gpu_energy_consumption (metrics ts') ! didx) =
                 val (gpu_energy_consumption (metrics ts) ! didx)) \<and>
            (last_energy ts ! didx \<noteq> 0 \<and> last_energy ts ! didx \<le> energy \<longrightarrow>
               val (gpu_energy_consumption (metrics ts') ! didx) =
                 val (gpu_energy_consumption (metrics ts) ! didx) +
                 (real (unat energy) - real (unat (last_energy ts ! didx))) * 0.001))"
proof -
  have start: "\<exists>ts0. nvml_thread_body dcnt [] m = Some (Running ts0) \<and>
                 last_energy ts0 ! didx = 0"
    using assms(2) by (simp add: nvml_thread_body_def)
  from sample_cycle_slot [OF assms(1), of nv] obtain ts' where
    run: "sample_cycle nv dcnt ts = Some ts'" "sized dcnt ts'" and
    at: "\<forall>i < dcnt. slot ts' i = device_step nv i (slot ts i)"
    by blast
  from at assms(2) have "slot ts' didx = device_step nv didx (slot ts didx)"
    by blast
  then have step:
    "val (gpu_energy_consumption (metrics ts') ! didx) =
       val (gpu_energy_consumption (metrics ts) ! didx) +
       real (unat (energy - (if last_energy ts ! didx = 0 then energy
                             else last_energy ts ! didx))) * 0.001"
    "last_energy ts' ! didx = energy"
    by (simp_all add: slot_def device_step_def assms(3,4))
  have mono: "val (gpu_energy_consumption (metrics ts) ! didx)
                \<le> val (gpu_energy_consumption (metrics ts') ! didx)"
    using of_nat_0_le_iff [where 'a = real,
        of "unat (energy - (if last_energy ts ! didx = 0 then energy
                            else last_energy ts ! didx))"]
    by (simp add: step(1))
  have base: "val (gpu_energy_consumption (metrics ts') ! didx) =
                val (gpu_energy_consumption (metrics ts) ! didx)"
    if "last_energy ts ! didx = 0"
    using that by (simp add: step(1))
  have grow: "val (gpu_energy_consumption (metrics ts') ! didx) =
                val (gpu_energy_consumption (metrics ts) ! didx) +
                (real (unat energy) - real (unat (last_energy ts ! didx))) * 0.001"
    if "last_energy ts ! didx \<noteq> 0 \<and> last_energy ts ! didx \<le> energy"
  proof -
    from that have "unat (energy - last_energy ts ! didx) =
                      unat energy - unat (last_energy ts ! didx)"
      and "unat (last_energy ts ! didx) \<le> unat energy"
      by (simp_all add: unat_sub word_le_nat_alt)
    with that show ?thesis
      by (simp add: step(1) of_nat_diff)
  qed
  from start run step(2) mono base grow show ?thesis by blast
qed

text \<open>
  The theorem on one device, twice: the first read (5000 mJ) only sets the baseline, the
  second (7000 mJ) adds 2 J.
\<close>

theorem energy_accounting_witness:
  "\<exists>ts1 ts2.
     sample_cycle (healthy 1 5000) 1 (started 1) = Some ts1 \<and>
     sample_cycle (healthy 1 7000) 1 ts1 = Some ts2 \<and>
     last_energy (started 1) ! 0 = 0 \<and>
     val (gpu_energy_consumption (metrics (started 1)) ! 0) = 0 \<and>
     val (gpu_energy_consumption (metrics ts1) ! 0) = 0 \<and>
     last_energy ts1 ! 0 = 5000 \<and>
     val (gpu_energy_consumption (metrics ts2) ! 0) = 2 \<and>
     last_energy ts2 ! 0 = 7000"
proof -
  have zero: "val (gpu_energy_consumption (metrics (started 1)) ! 0) = 0"
    "last_energy (started 1) ! 0 = 0"
    using slot_started [of 0 1] by (simp_all add: slot_def)
  have q1: "nvmlDeviceGetHandleByIndex (healthy 1 5000) 0 = NVML_SUCCESS 0"
    "nvmlDeviceGetTotalEnergyConsumption (healthy 1 5000) 0 = NVML_SUCCESS 5000"
    by simp_all
  have q2: "nvmlDeviceGetHandleByIndex (healthy 1 7000) 0 = NVML_SUCCESS 0"
    "nvmlDeviceGetTotalEnergyConsumption (healthy 1 7000) 0 = NVML_SUCCESS 7000"
    by simp_all
  from energy_accounting [OF sized_started [of 1] _ q1, where m = Metrics_ctor] zero obtain ts1 where
    run1: "sample_cycle (healthy 1 5000) 1 (started 1) = Some ts1" and size1: "sized 1 ts1" and
    first: "last_energy ts1 ! 0 = 5000" "val (gpu_energy_consumption (metrics ts1) ! 0) = 0"
    by auto
  from energy_accounting [OF size1 _ q2, where m = Metrics_ctor] first obtain ts2 where
    run2: "sample_cycle (healthy 1 7000) 1 ts1 = Some ts2" and
    second: "last_energy ts2 ! 0 = 7000" "val (gpu_energy_consumption (metrics ts2) ! 0) = 2"
    by auto
  show ?thesis
    by (intro exI [of _ ts1] exI [of _ ts2] conjI)
      (simp_all only: run1 run2 zero first second)
qed

text \<open>
  Claim C1 as it is written fails on the code in two places. With the readings 5000 and
  then 3000 the second read is below the stored value, and the increment is not zero.
  With the readings 0 and then 5000 the second read is a subsequent successful read with
  a stored value of 0, and the increment is not (5000 - 0) * 0.001 = 5.
\<close>

theorem energy_accounting_counterexample:
  "energy_increment [5000, 3000] \<noteq> Some 0 \<and> energy_increment [0, 5000] \<noteq> Some 5"
  by (simp add: energy_increment_def energy_run_fold)


section \<open>The five readings 0, 0, 5000, 5000, 3000\<close>

text \<open>
  Claim C2 as it is written fails on the code in two places: the third cycle, the first
  to read 5000, does not add 5 to the counter, and the fifth, which reads 3000 after
  5000, does not add 0.
\<close>

theorem energy_example_counterexample:
  "energy_increment [0, 0, 5000] \<noteq> Some 5 \<and>
   energy_increment [0, 0, 5000, 5000, 3000] \<noteq> Some 0"
  by (simp add: energy_increment_def energy_run_fold)

text \<open>
  Claim C2, as amended. With one device and the readings 0, 0, 5000, 5000, 3000 in five
  cycles that all succeed, the counter is incremented by 0, 0, 0, 0 and
  18446744073709549.616 joules: the stored value is still 0 when 5000 is first read, so
  that reading becomes the baseline (the stored values after the cycles are 0, 0, 5000,
  5000, 3000), and the last cycle adds ((3000 - 5000) mod 2^64) * 0.001.
\<close>

theorem energy_example:
  "[energy_increment [0],
    energy_increment [0, 0],
    energy_increment [0, 0, 5000],
    energy_increment [0, 0, 5000, 5000],
    energy_increment [0, 0, 5000, 5000, 3000]] =
   [Some 0, Some 0, Some 0, Some 0, Some 18446744073709549.616] \<and>
   [energy_baseline_after [0],
    energy_baseline_after [0, 0],
    energy_baseline_after [0, 0, 5000],
    energy_baseline_after [0, 0, 5000, 5000],
    energy_baseline_after [0, 0, 5000, 5000, 3000]] =
   [Some 0, Some 0, Some 5000, Some 5000, Some 3000] \<and>
   (3000 - 5000 :: int) mod 2 ^ 64 = 18446744073709549616"
  by (simp add: energy_increment_def energy_run_fold)

section \<open>A reading below the stored value\<close>

text \<open>
  Claim C10. The difference is taken in 64-bit unsigned arithmetic before the conversion
  to \<^verbatim>\<open>double\<close>. So in a cycle over vectors that have an entry for every device, a
  device whose handle and energy are read successfully, with a reading strictly below
  the stored value (which is then not 0), has its counter incremented by
  ((reading - stored) mod 2^64) * 0.001. That number is 2^64 - (stored - reading), which
  is positive, times 0.001, and not zero. The reading is stored afterwards.
\<close>

theorem energy_decrease_wraps:
  assumes "sized dcnt ts"
    and "didx < dcnt"
    and "nvmlDeviceGetHandleByIndex nv didx = NVML_SUCCESS gpu"
    and "nvmlDeviceGetTotalEnergyConsumption nv gpu = NVML_SUCCESS energy"
    and "energy < last_energy ts ! didx"
  shows "\<exists>ts'. sample_cycle nv dcnt ts = Some ts' \<and>
           last_energy ts ! didx \<noteq> 0 \<and>
           val (gpu_energy_consumption (metrics ts') ! didx) =
             val (gpu_energy_consumption (metrics ts) ! didx) +
             real_of_int ((uint energy - uint (last_energy ts ! didx)) mod 2 ^ 64) * 0.001 \<and>
           (uint energy - uint (last_energy ts ! didx)) mod 2 ^ 64 =
             2 ^ 64 - (uint (last_energy ts ! didx) - uint energy) \<and>
           0 < (uint energy - uint (last_energy ts ! didx)) mod 2 ^ 64 \<and>
           val (gpu_energy_consumption (metrics ts') ! didx) \<noteq>
             val (gpu_energy_consumption (metrics ts) ! didx) \<and>
           last_energy ts' ! didx = energy"
proof -
  let ?le = "last_energy ts ! didx"
  from assms(5) have nonzero: "?le \<noteq> 0"
    by (metis word_not_simps(1))
  from sample_cycle_slot [OF assms(1), of nv] obtain ts' where
    run: "sample_cycle nv dcnt ts = Some ts'" and
    at: "\<forall>i < dcnt. slot ts' i = device_step nv i (slot ts i)"
    by blast
  from at assms(2) have "slot ts' didx = device_step nv didx (slot ts didx)"
    by blast
  with nonzero have step:
    "val (gpu_energy_consumption (metrics ts') ! didx) =
       val (gpu_energy_consumption (metrics ts) ! didx) + real (unat (energy - ?le)) * 0.001"
    "last_energy ts' ! didx = energy"
    by (simp_all add: slot_def device_step_def assms(3,4))
  have wrap: "uint (energy - ?le) = (uint energy - uint ?le) mod 2 ^ 64"
    by (simp add: uint_word_ariths)
  from assms(5) have less: "uint energy < uint ?le"
    by (simp add: word_less_def)
  have bound: "uint ?le < 2 ^ 64" "0 \<le> uint energy"
    using uint_lt2p [of ?le] by simp_all
  have exact: "(uint energy - uint ?le) mod 2 ^ 64 = 2 ^ 64 - (uint ?le - uint energy)"
  proof -
    have "(uint energy - uint ?le) mod 2 ^ 64 = (uint energy - uint ?le + 2 ^ 64) mod 2 ^ 64"
      by simp
    also have "\<dots> = uint energy - uint ?le + 2 ^ 64"
    proof (rule mod_pos_pos_trivial)
      have "0 \<le> uint energy" by simp
      with bound(1) show "0 \<le> uint energy - uint ?le + 2 ^ 64" by linarith
      from less show "uint energy - uint ?le + 2 ^ 64 < 2 ^ 64" by linarith
    qed
    finally show ?thesis by simp
  qed
  have "0 \<le> uint energy" by simp
  with bound(1) have "uint ?le - uint energy < 2 ^ 64" by linarith
  with exact have positive: "0 < (uint energy - uint ?le) mod 2 ^ 64"
    by simp
  have "real (unat (energy - ?le)) = real_of_int (uint (energy - ?le))"
    by simp
  with step(1) wrap have counter:
    "val (gpu_energy_consumption (metrics ts') ! didx) =
       val (gpu_energy_consumption (metrics ts) ! didx) +
       real_of_int ((uint energy - uint ?le) mod 2 ^ 64) * 0.001"
    by simp
  from counter positive have changed:
    "val (gpu_energy_consumption (metrics ts') ! didx) \<noteq>
       val (gpu_energy_consumption (metrics ts) ! didx)"
    by simp
  from run nonzero counter exact positive changed step(2) show ?thesis by blast
qed

text \<open>
  The theorem on one device whose stored value is 5000 after a first cycle and whose
  next reading is 3000: the counter goes from 0 to 18446744073709549.616.
\<close>

theorem energy_decrease_wraps_witness:
  "\<exists>ts1 ts2.
     sample_cycle (healthy 1 5000) 1 (started 1) = Some ts1 \<and>
     sample_cycle (healthy 1 3000) 1 ts1 = Some ts2 \<and>
     last_energy ts1 ! 0 = 5000 \<and>
     val (gpu_energy_consumption (metrics ts1) ! 0) = 0 \<and>
     val (gpu_energy_consumption (metrics ts2) ! 0) = 18446744073709549.616 \<and>
     last_energy ts2 ! 0 = 3000"
proof -
  from first_cycle [of 1 5000] obtain ts1 where
    run1: "sample_cycle (healthy 1 5000) 1 (started 1) = Some ts1" and size1: "sized 1 ts1" and
    first: "val (gpu_energy_consumption (metrics ts1) ! 0) = 0" "last_energy ts1 ! 0 = 5000"
    by auto
  have q: "(0::nat) < 1" "nvmlDeviceGetHandleByIndex (healthy 1 3000) 0 = NVML_SUCCESS 0"
    "nvmlDeviceGetTotalEnergyConsumption (healthy 1 3000) 0 = NVML_SUCCESS 3000"
    "(3000 :: 64 word) < last_energy ts1 ! 0"
    by (simp_all add: first)
  from energy_decrease_wraps [OF size1 q] obtain ts2 where
    run2: "sample_cycle (healthy 1 3000) 1 ts1 = Some ts2" and
    counter: "val (gpu_energy_consumption (metrics ts2) ! 0) =
       val (gpu_energy_consumption (metrics ts1) ! 0) +
       real_of_int ((uint (3000 :: 64 word) - uint (last_energy ts1 ! 0)) mod 2 ^ 64) * 0.001" and
    stored: "last_energy ts2 ! 0 = 3000"
    by blast
  from counter first have "val (gpu_energy_consumption (metrics ts2) ! 0) = 18446744073709549.616"
    by simp
  with run1 run2 first stored show ?thesis by blast
qed

section \<open>Initialising twice\<close>

lemma sample_power_limit_exposer:
  "sample_power_limit nv gpu d ts = Some ts' \<Longrightarrow> exposer (metrics ts') = exposer (metrics ts)"
  by (auto simp add: sample_power_limit_def Set_at_def split: nvmlReturn_t.splits if_splits)

lemma sample_power_usage_exposer:
  "sample_power_usage nv gpu d ts = Some ts' \<Longrightarrow> exposer (metrics ts') = exposer (metrics ts)"
  by (auto simp add: sample_power_usage_def Set_at_def split: nvmlReturn_t.splits if_splits)

lemma sample_energy_exposer:
  "sample_energy nv gpu d ts = Some ts' \<Longrightarrow> exposer (metrics ts') = exposer (metrics ts)"
  by (auto simp add: sample_energy_def Increment_at_def Let_def
        split: nvmlReturn_t.splits if_splits)

lemma sample_utilization_exposer:
  "sample_utilization nv gpu d ts = Some ts' \<Longrightarrow> exposer (metrics ts') = exposer (metrics ts)"
  by (auto simp add: sample_utilization_def Set_at_def split: nvmlReturn_t.splits if_splits)

lemma sample_device_exposer:
  assumes "sample_device nv d ts = Some ts'"
  shows "exposer (metrics ts') = exposer (metrics ts)"
proof (cases "nvmlDeviceGetHandleByIndex nv d")
  case (NVML_ERROR nvmlerr)
  with assms show ?thesis
    by (auto simp add: sample_device_def)
next
  case (NVML_SUCCESS gpu)
  with assms obtain ts1 ts2 ts3 where
    "sample_power_limit nv gpu d ts = Some ts1"
    "sample_power_usage nv gpu d ts1 = Some ts2"
    "sample_energy nv gpu d ts2 = Some ts3"
    "sample_utilization nv gpu d ts3 = Some ts'"
    by (auto simp add: sample_device_def bind_eq_Some_conv)
  then show ?thesis
    by (simp add: sample_power_limit_exposer sample_power_usage_exposer
          sample_energy_exposer sample_utilization_exposer)
qed

lemma sample_devices_exposer:
  "sample_devices nv ds ts = Some ts' \<Longrightarrow> exposer (metrics ts') = exposer (metrics ts)"
  by (induction ds arbitrary: ts) (auto split: option.splits dest: sample_device_exposer)

lemma nvml_thread_loop_exposer:
  "nvml_thread_loop dcnt schedule ts = Some r \<Longrightarrow>
     exposer (metrics (run_state r)) = exposer (metrics ts)"
proof (induction dcnt schedule ts rule: nvml_thread_loop.induct)
  case (1 dcnt ts)
  then show ?case by auto
next
  case (2 dcnt exit_flag nv rest ts)
  then show ?case
    by (auto simp add: sample_cycle_def split: if_splits option.splits
          dest: sample_devices_exposer)
qed

lemma Initialize_again:
  "exposer m \<noteq> None \<Longrightarrow>
     Initialize nv port m = m\<lparr>logged := logged m @ [(LOG_WARNING, ''Metrics already initialized.'')]\<rparr>"
  by (auto simp add: Initialize_def LOG_def)

lemma exposer_Initialize: "exposer (Initialize nv port m) \<noteq> None"
  by (simp add: Initialize_def Let_def split: option.splits)

lemma exposer_Initialize_ctor:
  "exposer (Initialize nv port Metrics_ctor) =
     Some (Exposer (''0.0.0.0:'' @ string_of_nat (unat port)) 1)"
  by (simp add: Initialize_def Let_def)

text \<open>
  Claim C6. A second \<open>Initialize\<close>, whatever its port and whatever the backend would
  answer, returns the state the first call left with one warning added to the log and
  nothing else changed: no vector grew, no thread was created, the exposer is the one
  the first call made. After the two calls on the constructed singleton the exposer is
  bound to the first port. The same holds when the sampling thread has run any schedule
  between the two calls.
\<close>

theorem Initialize_idempotent:
  "Initialize nv2 p2 (Initialize nv1 p1 m) =
     (Initialize nv1 p1 m)
       \<lparr>logged := logged (Initialize nv1 p1 m) @ [(LOG_WARNING, ''Metrics already initialized.'')]\<rparr>
   \<and> exposer (Initialize nv2 p2 (Initialize nv1 p1 Metrics_ctor)) =
       Some (Exposer (''0.0.0.0:'' @ string_of_nat (unat p1)) 1)
   \<and> (\<forall>dcnt schedule r.
        nvml_thread_body dcnt schedule (Initialize nv1 p1 Metrics_ctor) = Some r \<longrightarrow>
        Initialize nv2 p2 (metrics (run_state r)) =
          (metrics (run_state r))
            \<lparr>logged := logged (metrics (run_state r))
                        @ [(LOG_WARNING, ''Metrics already initialized.'')]\<rparr> \<and>
        exposer (Initialize nv2 p2 (metrics (run_state r))) =
          Some (Exposer (''0.0.0.0:'' @ string_of_nat (unat p1)) 1))"
proof -
  have plain: "Initialize nv2 p2 (Initialize nv1 p1 m) =
     (Initialize nv1 p1 m)
       \<lparr>logged := logged (Initialize nv1 p1 m) @ [(LOG_WARNING, ''Metrics already initialized.'')]\<rparr>"
    by (rule Initialize_again) (rule exposer_Initialize)
  have port: "exposer (Initialize nv2 p2 (Initialize nv1 p1 Metrics_ctor)) =
       Some (Exposer (''0.0.0.0:'' @ string_of_nat (unat p1)) 1)"
    by (simp add: Initialize_again [OF exposer_Initialize] exposer_Initialize_ctor)
  have between: "Initialize nv2 p2 (metrics (run_state r)) =
          (metrics (run_state r))
            \<lparr>logged := logged (metrics (run_state r))
                        @ [(LOG_WARNING, ''Metrics already initialized.'')]\<rparr> \<and>
        exposer (Initialize nv2 p2 (metrics (run_state r))) =
          Some (Exposer (''0.0.0.0:'' @ string_of_nat (unat p1)) 1)"
    if "nvml_thread_body dcnt schedule (Initialize nv1 p1 Metrics_ctor) = Some r"
    for dcnt schedule r
  proof -
    from that have kept: "exposer (metrics (run_state r)) =
        Some (Exposer (''0.0.0.0:'' @ string_of_nat (unat p1)) 1)"
      using nvml_thread_loop_exposer [of dcnt schedule _ r]
      by (simp add: nvml_thread_body_def exposer_Initialize_ctor)
    then have "exposer (metrics (run_state r)) \<noteq> None"
      by simp
    from Initialize_again [OF this] kept show ?thesis
      by simp
  qed
  from plain port between show ?thesis by blast
qed


text \<open>
  The theorem at two devices and port 8002, followed by a call with another backend and
  port 9000, directly and after one sampling cycle.
\<close>

theorem Initialize_idempotent_witness:
  "exposer (Initialize (healthy 3 0) 9000 (Initialize (healthy 2 0) 8002 Metrics_ctor)) =
     Some (Exposer ''0.0.0.0:8002'' 1) \<and>
   nvml_thread (Initialize (healthy 3 0) 9000 (Initialize (healthy 2 0) 8002 Metrics_ctor)) =
     Some 2 \<and>
   length (gpu_utilization
     (Initialize (healthy 3 0) 9000 (Initialize (healthy 2 0) 8002 Metrics_ctor))) = 2 \<and>
   logged (Initialize (healthy 3 0) 9000 (Initialize (healthy 2 0) 8002 Metrics_ctor)) =
     logged (Initialize (healthy 2 0) 8002 Metrics_ctor)
       @ [(LOG_WARNING, ''Metrics already initialized.'')] \<and>
   (\<exists>r. nvml_thread_body 2 [(False, healthy 2 5000)]
          (Initialize (healthy 2 0) 8002 Metrics_ctor) = Some r \<and>
        exposer (Initialize (healthy 3 0) 9000 (metrics (run_state r))) =
          Some (Exposer ''0.0.0.0:8002'' 1))"
proof -
  let ?m1 = "Initialize (healthy 2 0) 8002 Metrics_ctor"
  let ?m2 = "Initialize (healthy 3 0) 9000 ?m1"
  have port: "''0.0.0.0:'' @ string_of_nat (unat (8002 :: 32 word)) = ''0.0.0.0:8002''"
    by (simp add: string_of_nat.simps)
  have m1: "?m1 = (metrics (started 2))
                    \<lparr>exposer := Some (Exposer (''0.0.0.0:'' @ string_of_nat (unat (8002 :: 32 word))) 1)\<rparr>"
    by (simp add: Initialize_def Let_def started_def)
  have first: "nvml_thread ?m1 = Some 2" "length (gpu_utilization ?m1) = 2"
    using sized_started [of 2]
    by (simp_all add: m1 sized_def started_def InitializeNvmlMetrics_thread)
  have size: "sized 2 \<lparr>metrics = ?m1, last_energy = replicate 2 0\<rparr>"
    using sized_started [of 2] by (simp add: m1 sized_def started_def)
  from sample_cycle_slot [OF size, of "healthy 2 5000"] obtain ts' where
    "sample_cycle (healthy 2 5000) 2 \<lparr>metrics = ?m1, last_energy = replicate 2 0\<rparr> = Some ts'"
    by blast
  then have run: "nvml_thread_body 2 [(False, healthy 2 5000)] ?m1 = Some (Running ts')"
    by (simp add: nvml_thread_body_def)
  note twice = Initialize_idempotent [of "healthy 3 0" 9000 "healthy 2 0" 8002 Metrics_ctor]
  from twice have same: "?m2 = ?m1\<lparr>logged := logged ?m1 @ [(LOG_WARNING, ''Metrics already initialized.'')]\<rparr>"
    by blast
  from twice have "exposer ?m2 =
      Some (Exposer (''0.0.0.0:'' @ string_of_nat (unat (8002 :: 32 word))) 1)"
    by blast
  then have bound: "exposer ?m2 = Some (Exposer ''0.0.0.0:8002'' 1)"
    unfolding port .
  from twice run have
    "exposer (Initialize (healthy 3 0) 9000 (metrics (run_state (Running ts')))) =
       Some (Exposer (''0.0.0.0:'' @ string_of_nat (unat (8002 :: 32 word))) 1)"
    by blast
  then have later:
    "exposer (Initialize (healthy 3 0) 9000 (metrics (run_state (Running ts')))) =
       Some (Exposer ''0.0.0.0:8002'' 1)"
    unfolding port .
  have kept: "nvml_thread ?m2 = Some 2" "length (gpu_utilization ?m2) = 2"
    "logged ?m2 = logged ?m1 @ [(LOG_WARNING, ''Metrics already initialized.'')]"
    by (subst same, simp add: first)+
  from bound kept run later show ?thesis
    by blast
qed

section \<open>Enumeration: one instance per device with a handle\<close>

text \<open>
  Claim C9. When \<^verbatim>\<open>nvmlInit\<close> and \<^verbatim>\<open>nvmlDeviceGetCount\<close> succeed, the four vectors are
  filled alike, with one instance for every device index whose handle is obtained, in
  the order of the indices: the instance of such a device stands at the position given
  by the number of earlier indices with a handle, it starts at 0, and its label is the
  UUID when the UUID query succeeds and \<^verbatim>\<open>"unknown"\<close> when it fails. A failed UUID query
  thus costs neither that device nor any later one its instances.
\<close>

theorem uuid_failure_gives_unknown:
  assumes "nvmlInit nv = NVML_SUCCESS ()"
    and "nvmlDeviceGetCount nv = NVML_SUCCESS dcnt"
  shows "gpu_power_usage (snd (InitializeNvmlMetrics nv Metrics_ctor)) =
           gpu_utilization (snd (InitializeNvmlMetrics nv Metrics_ctor)) \<and>
         gpu_power_limit (snd (InitializeNvmlMetrics nv Metrics_ctor)) =
           gpu_utilization (snd (InitializeNvmlMetrics nv Metrics_ctor)) \<and>
         gpu_energy_consumption (snd (InitializeNvmlMetrics nv Metrics_ctor)) =
           gpu_utilization (snd (InitializeNvmlMetrics nv Metrics_ctor)) \<and>
         length (gpu_utilization (snd (InitializeNvmlMetrics nv Metrics_ctor))) =
           length (filter (has_handle nv) [0..<dcnt]) \<and>
         (\<forall>didx < dcnt. \<forall>gpu. nvmlDeviceGetHandleByIndex nv didx = NVML_SUCCESS gpu \<longrightarrow>
            length (filter (has_handle nv) [0..<didx])
              < length (gpu_utilization (snd (InitializeNvmlMetrics nv Metrics_ctor))) \<and>
            gpu_utilization (snd (InitializeNvmlMetrics nv Metrics_ctor))
              ! length (filter (has_handle nv) [0..<didx]) =
              \<lparr>labels = [(kMetricsLabelGpuUuid,
                          (case nvmlDeviceGetUUID nv gpu of
                             NVML_SUCCESS uuid_str \<Rightarrow> uuid_str
                           | NVML_ERROR e \<Rightarrow> ''unknown''))],
               val = 0\<rparr>)"
proof -
  let ?m = "snd (InitializeNvmlMetrics nv Metrics_ctor)"
  note vectors = InitializeNvmlMetrics_vectors [OF assms, of Metrics_ctor]
  have alike: "gpu_power_usage ?m = gpu_utilization ?m" "gpu_power_limit ?m = gpu_utilization ?m"
    "gpu_energy_consumption ?m = gpu_utilization ?m"
    by (simp_all add: vectors)
  have count: "length (gpu_utilization ?m) = length (filter (has_handle nv) [0..<dcnt])"
    by (simp add: vectors created_for_length)
  have each: "length (filter (has_handle nv) [0..<didx]) < length (gpu_utilization ?m) \<and>
      gpu_utilization ?m ! length (filter (has_handle nv) [0..<didx]) =
        \<lparr>labels = [(kMetricsLabelGpuUuid,
                    (case nvmlDeviceGetUUID nv gpu of
                       NVML_SUCCESS uuid_str \<Rightarrow> uuid_str
                     | NVML_ERROR e \<Rightarrow> ''unknown''))],
         val = 0\<rparr>"
    if "didx < dcnt" and "nvmlDeviceGetHandleByIndex nv didx = NVML_SUCCESS gpu" for didx gpu
  proof -
    from that(2) have "has_handle nv didx"
      by (simp add: has_handle_def)
    then have "length (filter (has_handle nv) [0..<didx])
                 < length (filter (has_handle nv) [0..<dcnt])"
      by (simp add: upt_split_at [OF that(1)])
    with created_for_nth [OF that] show ?thesis
      by (simp add: vectors created_for_length Family_Add_def)
  qed
  from alike count each show ?thesis by blast
qed

text \<open>
  The theorem at three devices of which the one with index 1 has no readable UUID: three
  instances in each vector, labelled GPU-0, unknown, GPU-2.
\<close>

theorem uuid_failure_gives_unknown_witness:
  "length (gpu_utilization (snd (InitializeNvmlMetrics (no_uuid 1 (healthy 3 0)) Metrics_ctor))) = 3 \<and>
   gpu_utilization (snd (InitializeNvmlMetrics (no_uuid 1 (healthy 3 0)) Metrics_ctor)) ! 0 =
     \<lparr>labels = [(''gpu_uuid'', ''GPU-0'')], val = 0\<rparr> \<and>
   gpu_utilization (snd (InitializeNvmlMetrics (no_uuid 1 (healthy 3 0)) Metrics_ctor)) ! 1 =
     \<lparr>labels = [(''gpu_uuid'', ''unknown'')], val = 0\<rparr> \<and>
   gpu_utilization (snd (InitializeNvmlMetrics (no_uuid 1 (healthy 3 0)) Metrics_ctor)) ! 2 =
     \<lparr>labels = [(''gpu_uuid'', ''GPU-2'')], val = 0\<rparr> \<and>
   gpu_power_usage (snd (InitializeNvmlMetrics (no_uuid 1 (healthy 3 0)) Metrics_ctor)) =
     gpu_utilization (snd (InitializeNvmlMetrics (no_uuid 1 (healthy 3 0)) Metrics_ctor)) \<and>
   gpu_power_limit (snd (InitializeNvmlMetrics (no_uuid 1 (healthy 3 0)) Metrics_ctor)) =
     gpu_utilization (snd (InitializeNvmlMetrics (no_uuid 1 (healthy 3 0)) Metrics_ctor)) \<and>
   gpu_energy_consumption (snd (InitializeNvmlMetrics (no_uuid 1 (healthy 3 0)) Metrics_ctor)) =
     gpu_utilization (snd (InitializeNvmlMetrics (no_uuid 1 (healthy 3 0)) Metrics_ctor))"
proof -
  let ?nv = "no_uuid 1 (healthy 3 0)"
  let ?vec = "gpu_utilization (snd (InitializeNvmlMetrics ?nv Metrics_ctor))"
  have q: "nvmlInit ?nv = NVML_SUCCESS ()" "nvmlDeviceGetCount ?nv = NVML_SUCCESS 3"
    by (simp_all add: no_uuid_def)
  have handles: "nvmlDeviceGetHandleByIndex ?nv didx = NVML_SUCCESS didx" for didx
    by (simp add: no_uuid_def)
  then have all: "filter (has_handle ?nv) ds = ds" for ds
    by (simp add: has_handle_def)
  have uuids: "nvmlDeviceGetUUID ?nv 0 = NVML_SUCCESS ''GPU-0''"
    "nvmlDeviceGetUUID ?nv 1 = NVML_ERROR 999"
    "nvmlDeviceGetUUID ?nv 2 = NVML_SUCCESS ''GPU-2''"
    by (simp_all add: no_uuid_def string_of_nat.simps)
  note enum = uuid_failure_gives_unknown [OF q, unfolded all]
  from enum have len: "length ?vec = 3"
    by simp
  from enum handles [of 0] uuids(1) have at0: "?vec ! 0 = \<lparr>labels = [(''gpu_uuid'', ''GPU-0'')], val = 0\<rparr>"
    by (auto simp add: kMetricsLabelGpuUuid_def)
  from enum handles [of 1] uuids(2) have at1: "?vec ! 1 = \<lparr>labels = [(''gpu_uuid'', ''unknown'')], val = 0\<rparr>"
    by (auto simp add: kMetricsLabelGpuUuid_def)
  from enum handles [of 2] uuids(3) have at2: "?vec ! 2 = \<lparr>labels = [(''gpu_uuid'', ''GPU-2'')], val = 0\<rparr>"
    by (auto simp add: kMetricsLabelGpuUuid_def)
  from enum len at0 at1 at2 show ?thesis
    by blast
qed

section \<open>Enumeration when a handle is missing\<close>

lemma sample_power_limit_length:
  "sample_power_limit nv gpu d ts = Some ts' \<Longrightarrow>
     length (gpu_power_limit (metrics ts')) = length (gpu_power_limit (metrics ts))"
  by (auto simp add: sample_power_limit_def Set_at_def split: nvmlReturn_t.splits if_splits)

lemma sample_power_usage_length:
  "sample_power_usage nv gpu d ts = Some ts' \<Longrightarrow>
     length (gpu_power_limit (metrics ts')) = length (gpu_power_limit (metrics ts))"
  by (auto simp add: sample_power_usage_def Set_at_def split: nvmlReturn_t.splits if_splits)

lemma sample_energy_length:
  "sample_energy nv gpu d ts = Some ts' \<Longrightarrow>
     length (gpu_power_limit (metrics ts')) = length (gpu_power_limit (metrics ts))"
  by (auto simp add: sample_energy_def Increment_at_def Let_def
        split: nvmlReturn_t.splits if_splits)

lemma sample_utilization_length:
  "sample_utilization nv gpu d ts = Some ts' \<Longrightarrow>
     length (gpu_power_limit (metrics ts')) = length (gpu_power_limit (metrics ts))"
  by (auto simp add: sample_utilization_def Set_at_def split: nvmlReturn_t.splits if_splits)

lemma sample_device_length:
  assumes "sample_device nv d ts = Some ts'"
  shows "length (gpu_power_limit (metrics ts')) = length (gpu_power_limit (metrics ts))"
proof (cases "nvmlDeviceGetHandleByIndex nv d")
  case (NVML_ERROR nvmlerr)
  with assms show ?thesis
    by (auto simp add: sample_device_def)
next
  case (NVML_SUCCESS gpu)
  with assms obtain ts1 ts2 ts3 where
    "sample_power_limit nv gpu d ts = Some ts1"
    "sample_power_usage nv gpu d ts1 = Some ts2"
    "sample_energy nv gpu d ts2 = Some ts3"
    "sample_utilization nv gpu d ts3 = Some ts'"
    by (auto simp add: sample_device_def bind_eq_Some_conv)
  then show ?thesis
    by (simp add: sample_power_limit_length sample_power_usage_length
          sample_energy_length sample_utilization_length)
qed

text \<open>
  A device with a handle whose index is beyond the end of the power-limit vector: the
  first access of its block is out of range.
\<close>

lemma sample_device_beyond:
  assumes "has_handle nv d" and "length (gpu_power_limit (metrics ts)) \<le> d"
  shows "sample_device nv d ts = None"
  using assms
  by (simp add: has_handle_def sample_device_def sample_power_limit_def Set_at_def
        split: nvmlReturn_t.splits prod.splits)

lemma sample_devices_beyond:
  assumes "d \<in> set ds" and "has_handle nv d"
    and "length (gpu_power_limit (metrics ts)) \<le> d"
  shows "sample_devices nv ds ts = None"
  using assms
proof (induction ds arbitrary: ts)
  case Nil
  then show ?case by simp
next
  case (Cons x ds)
  show ?case
  proof (cases "sample_device nv x ts")
    case None
    then show ?thesis by simp
  next
    case (Some ts1)
    with Cons.prems sample_device_beyond [of nv d ts] have rest: "d \<in> set ds"
      by auto
    from Some Cons.prems(3) have "length (gpu_power_limit (metrics ts1)) \<le> d"
      by (simp add: sample_device_length)
    with rest Cons.prems(2) have "sample_devices nv ds ts1 = None"
      by (intro Cons.IH)
    with Some show ?thesis by simp
  qed
qed

text \<open>
  Claim C3 does not hold on the code when a handle query fails during the enumeration.
  Two devices are counted and the handle of device 0 cannot be obtained: the thread is
  started for two devices, but each vector holds a single instance, and the instance at
  position 0 is that of device 1. The sampling loop indexes the vectors by device index
  all the same: in the next cycle it reaches index 1, which is beyond the end of every
  vector.
\<close>

theorem missing_handle_misaligns_vectors:
  "nvml_thread (snd (InitializeNvmlMetrics (no_handle 0 (healthy 2 0)) Metrics_ctor)) = Some 2 \<and>
   map labels (gpu_utilization
     (snd (InitializeNvmlMetrics (no_handle 0 (healthy 2 0)) Metrics_ctor))) =
     [[(''gpu_uuid'', ''GPU-1'')]] \<and>
   map labels (gpu_power_usage
     (snd (InitializeNvmlMetrics (no_handle 0 (healthy 2 0)) Metrics_ctor))) =
     [[(''gpu_uuid'', ''GPU-1'')]] \<and>
   map labels (gpu_power_limit
     (snd (InitializeNvmlMetrics (no_handle 0 (healthy 2 0)) Metrics_ctor))) =
     [[(''gpu_uuid'', ''GPU-1'')]] \<and>
   map labels (gpu_energy_consumption
     (snd (InitializeNvmlMetrics (no_handle 0 (healthy 2 0)) Metrics_ctor))) =
     [[(''gpu_uuid'', ''GPU-1'')]] \<and>
   nvml_thread_body 2 [(False, no_handle 0 (healthy 2 5000))]
     (snd (InitializeNvmlMetrics (no_handle 0 (healthy 2 0)) Metrics_ctor)) = None \<and>
   nvml_thread_body 2 [(False, healthy 2 5000)]
     (snd (InitializeNvmlMetrics (no_handle 0 (healthy 2 0)) Metrics_ctor)) = None"
proof -
  let ?nv = "no_handle 0 (healthy 2 0)"
  let ?m = "snd (InitializeNvmlMetrics ?nv Metrics_ctor)"
  have q: "nvmlInit ?nv = NVML_SUCCESS ()" "nvmlDeviceGetCount ?nv = NVML_SUCCESS 2"
    by (simp_all add: no_handle_def)
  have two: "[0..<2] = [0, Suc 0]"
    by (simp add: upt_rec)
  have made: "created_for ?nv 0 = []"
    "created_for ?nv (Suc 0) = [\<lparr>labels = [(''gpu_uuid'', ''GPU-1'')], val = 0\<rparr>]"
    by (simp_all add: created_for_def no_handle_def Family_Add_def kMetricsLabelGpuUuid_def
          string_of_nat.simps)
  note vectors = InitializeNvmlMetrics_vectors [OF q, of Metrics_ctor, unfolded two]
  have vecs: "gpu_utilization ?m = [\<lparr>labels = [(''gpu_uuid'', ''GPU-1'')], val = 0\<rparr>]"
    "gpu_power_usage ?m = [\<lparr>labels = [(''gpu_uuid'', ''GPU-1'')], val = 0\<rparr>]"
    "gpu_power_limit ?m = [\<lparr>labels = [(''gpu_uuid'', ''GPU-1'')], val = 0\<rparr>]"
    "gpu_energy_consumption ?m = [\<lparr>labels = [(''gpu_uuid'', ''GPU-1'')], val = 0\<rparr>]"
    by (simp_all add: vectors made)
  have thread: "nvml_thread ?m = Some 2"
    by (simp add: InitializeNvmlMetrics_thread q)
  have skipped: "nvml_thread_body 2 [(False, no_handle 0 (healthy 2 5000))] ?m = None"
  proof -
    have "has_handle (no_handle 0 (healthy 2 5000)) 1"
      by (simp add: has_handle_def no_handle_def)
    then have "sample_devices (no_handle 0 (healthy 2 5000)) [0..<2]
                 \<lparr>metrics = ?m, last_energy = replicate 2 0\<rparr> = None"
      by (intro sample_devices_beyond [of 1]) (simp_all add: vecs)
    then show ?thesis
      by (simp add: nvml_thread_body_def sample_cycle_def)
  qed
  have handled: "nvml_thread_body 2 [(False, healthy 2 5000)] ?m = None"
  proof -
    have "sample_devices (healthy 2 5000) [0..<2]
            \<lparr>metrics = ?m, last_energy = replicate 2 0\<rparr> = None"
      by (intro sample_devices_beyond [of 1]) (simp_all add: vecs)
    then show ?thesis
      by (simp add: nvml_thread_body_def sample_cycle_def)
  qed
  from thread vecs skipped handled show ?thesis
    by simp
qed

end
